theory Spec2Isabelle
  imports Complex_Main "HOL-Library.AList"
begin

section \<open>Youth bike league distance calculator (calculator.py)\<close>

text \<open>
  Conventions of the embedding.
  \<^item> Python \<open>str\<close> is \<open>string\<close>; the character classes (\<open>str.strip\<close>, \<open>\s\<close>,
    \<open>\w\<close>, \<open>str.lower\<close>, the digits of \<open>int()\<close>) are the ASCII ones.
  \<^item> Python \<open>float\<close> is \<open>real\<close>: arithmetic is exact, and \<open>round(x, n)\<close> is rounding of
    the exact value to \<open>n\<close> decimals, ties to the even digit.
  \<^item> A \<open>dict\<close> whose order is observable (the venue table, the distance matrix, the
    counters and totals of the aggregation) is an association list that keeps insertion
    order; the two caches are maps.
  \<^item> The two Google services are parameters: the answer to the \<open>n\<close>-th external request is
    \<open>api n request\<close>. Every external request is appended to a log kept in the state, so
    that the number of external calls can be stated: a geocoding request with the cache
    key of the call that made it and the answer, a distance request with the two points and
    the answer.
  \<^item> \<open>print\<close> and \<open>time.sleep\<close> are left out.
\<close>

subsection \<open>Characters and strings\<close>

definition is_space :: "char \<Rightarrow> bool" where
  "is_space c = (c \<in> set [CHR 0x09, CHR 0x0A, CHR 0x0B, CHR 0x0C, CHR 0x0D,
                            CHR 0x1C, CHR 0x1D, CHR 0x1E, CHR 0x1F, CHR 0x20])"

definition is_upper :: "char \<Rightarrow> bool" where
  "is_upper c = (c \<in> set ''ABCDEFGHIJKLMNOPQRSTUVWXYZ'')"

definition is_lower :: "char \<Rightarrow> bool" where
  "is_lower c = (c \<in> set ''abcdefghijklmnopqrstuvwxyz'')"

definition is_digit :: "char \<Rightarrow> bool" where
  "is_digit c = (c \<in> set ''0123456789'')"

definition is_word :: "char \<Rightarrow> bool" where
  "is_word c = (is_upper c \<or> is_lower c \<or> is_digit c \<or> c = CHR ''_'')"

definition lower_char :: "char \<Rightarrow> char" where
  "lower_char c =
     (case map_of (zip ''ABCDEFGHIJKLMNOPQRSTUVWXYZ'' ''abcdefghijklmnopqrstuvwxyz'') c of
        Some d \<Rightarrow> d
      | None \<Rightarrow> c)"

definition lower :: "string \<Rightarrow> string" where
  "lower s = map lower_char s"

definition strip :: "string \<Rightarrow> string" where
  "strip s = rev (dropWhile is_space (rev (dropWhile is_space s)))"

fun starts_with :: "string \<Rightarrow> string \<Rightarrow> bool" where
  "starts_with [] s = True"
| "starts_with (p # ps) [] = False"
| "starts_with (p # ps) (c # cs) = (p = c \<and> starts_with ps cs)"

text \<open>\<open>a in b\<close> on strings.\<close>

fun contains :: "string \<Rightarrow> string \<Rightarrow> bool" where
  "contains a [] = (a = [])"
| "contains a (c # cs) = (starts_with a (c # cs) \<or> contains a cs)"


subsection \<open>Numbers\<close>

text \<open>\<open>round(x, nd)\<close>: the nearest multiple of \<open>10 ^ -nd\<close>, a tie going to the even one.\<close>

definition py_round :: "real \<Rightarrow> nat \<Rightarrow> real" where
  "py_round x nd =
     (let y = x * 10 ^ nd; f = \<lfloor>y\<rfloor>; r = y - of_int f
      in of_int (if r < 1 / 2 then f
                 else if 1 / 2 < r then f + 1
                 else if even f then f else f + 1) / 10 ^ nd)"








subsection \<open>Configuration\<close>

definition LAT_MIN :: real where "LAT_MIN = 45.0"
definition LAT_MAX :: real where "LAT_MAX = 49.5"
definition LNG_MIN :: real where "LNG_MIN = - 125.0"
definition LNG_MAX :: real where "LNG_MAX = - 116.0"

definition LOCATION_STANDARDIZATION :: "(string \<times> string) list" where
  "LOCATION_STANDARDIZATION =
     [(''360 Trails'', ''360 Trails''),
      (''360 Trails Park'', ''360 Trails''),
      (''360 Trails (State Championship and Relay)'', ''360 Trails''),
      (''Squilchuck (Race + Camping)'', ''Squilchuck State Park''),
      (''Squilchuck (State Park)'', ''Squilchuck State Park''),
      (''(local venue)'', ''Riverside State Park''),
      (''Riverside (State Park)'', ''Riverside State Park''),
      (''Liberty Bell High School'', ''Liberty Bell High School''),
      (''Roslyn High School'', ''Roslyn High School''),
      (''Cle Elum-Roslyn High School'', ''Roslyn High School'')]"

definition CITY_LOCAL_VENUE_OVERRIDES :: "(string \<times> string) list" where
  "CITY_LOCAL_VENUE_OVERRIDES =
     [(''Spokane'', ''Riverside State Park''),
      (''Winthrop'', ''Liberty Bell High School''),
      (''Ephrata'', ''Ephrata, WA'')]"

subsection \<open>Helpers\<close>

datatype season = Spring | Fall | Other



text \<open>The loop over the override table: the first key found in the city decides.\<close>

fun first_override :: "(string \<times> string) list \<Rightarrow> string \<Rightarrow> string option" where
  "first_override [] city = None"
| "first_override ((k, v) # kvs) city =
     (if contains (lower k) (lower city) then Some v else first_override kvs city)"

definition dict_get :: "('k \<times> 'v) list \<Rightarrow> 'k \<Rightarrow> 'v \<Rightarrow> 'v" where
  "dict_get d k dflt = (case map_of d k of Some v \<Rightarrow> v | None \<Rightarrow> dflt)"

definition standardize_venue_name :: "string \<Rightarrow> string \<Rightarrow> string" where
  "standardize_venue_name city venue_in =
     (let venue = strip venue_in;
          generic = dict_get LOCATION_STANDARDIZATION venue venue
      in if venue = ''(local venue)''
         then (case first_override CITY_LOCAL_VENUE_OVERRIDES city of
                 Some v \<Rightarrow> v
               | None \<Rightarrow> generic)
         else generic)"

text \<open>
  \<open>re.sub(re.escape(team_name), "", c, flags=re.IGNORECASE)\<close>: every occurrence of the
  literal pattern, found from the left and compared without case, is removed. An empty
  pattern matches the empty string only, and replacing that by nothing changes nothing.
\<close>

fun remove_ci :: "string \<Rightarrow> string \<Rightarrow> string" where
  "remove_ci pat [] = []"
| "remove_ci pat (c # cs) =
     (if pat = [] then c # cs
      else if starts_with (lower pat) (lower (c # cs))
      then remove_ci pat (drop (length pat - 1) cs)
      else c # remove_ci pat cs)"

text \<open>\<open>re.sub(r"\s{2,}", " ", c)\<close>: a run of two or more whitespace characters becomes one space.\<close>

function collapse_spaces :: "string \<Rightarrow> string" where
  "collapse_spaces [] = []"
| "collapse_spaces [c] = [c]"
| "collapse_spaces (c # d # cs) =
     (if is_space c \<and> is_space d then CHR '' '' # collapse_spaces (dropWhile is_space cs)
      else c # collapse_spaces (d # cs))"
  by pat_completeness auto
termination
  by (relation "measure length") (auto simp: length_dropWhile_le less_Suc_eq_le le_SucI)

definition clean_city_field :: "string \<Rightarrow> string \<Rightarrow> string" where
  "clean_city_field team_name city =
     (if city = [] then city
      else let c = strip (remove_ci team_name city);
               c = collapse_spaces c
           in if c = [] then city else c)"

subsection \<open>The calculator and the two Google services\<close>

record geocoded =
  query :: string
  formatted_address :: string
  lat :: real
  lng :: real

text \<open>The first entry of \<open>results\<close> in a geocoding answer, and the answer.\<close>

record geocode_result =
  res_formatted_address :: string
  res_lat :: real
  res_lng :: real

record geocode_response =
  status :: string
  results :: "geocode_result list"

text \<open>
  A Distance Matrix answer: its status and, of \<open>rows[0].elements[0]\<close>, the status, the
  distance in meters and the duration in seconds.
\<close>

record distance_response =
  dm_status :: string
  element_status :: string
  distance_value :: real
  duration_value :: real

text \<open>
  A coordinate printed with \<open>:.6f\<close>: its sign and its magnitude rounded to six decimals. Two
  coordinates print the same text exactly when these pairs are equal.
\<close>

definition fmt6 :: "real \<Rightarrow> bool \<times> real" where
  "fmt6 x = (x < 0, py_round \<bar>x\<bar> 6)"

type_synonym distance_key = "((bool \<times> real) \<times> (bool \<times> real)) \<times> ((bool \<times> real) \<times> (bool \<times> real))"

definition distance_cache_key :: "geocoded \<Rightarrow> geocoded \<Rightarrow> distance_key" where
  "distance_cache_key origin destination =
     ((fmt6 (lat origin), fmt6 (lng origin)), (fmt6 (lat destination), fmt6 (lng destination)))"

record calc =
  geocode_cache :: "string \<rightharpoonup> geocoded option"
  distance_cache :: "distance_key \<rightharpoonup> real \<times> real"
  geocode_calls :: "(string \<times> string \<times> geocode_response) list"
  distance_calls :: "(geocoded \<times> geocoded \<times> distance_response) list"

text \<open>\<open>DistanceCalculator(api_key)\<close>: empty caches, no request made yet.\<close>

definition init_calc :: calc where
  "init_calc = \<lparr>geocode_cache = Map.empty, distance_cache = Map.empty,
                 geocode_calls = [], distance_calls = []\<rparr>"

text \<open>
  \<open>re.search(r",\s*[A-Z]{2}\b", query)\<close>: a comma, any whitespace, two capitals, and then
  the end of the string or a character that is not a word character.
\<close>

definition state_code_here :: "string \<Rightarrow> bool" where
  "state_code_here s =
     (case dropWhile is_space s of
        a # b # rest \<Rightarrow>
          is_upper a \<and> is_upper b \<and> (case rest of [] \<Rightarrow> True | c # _ \<Rightarrow> \<not> is_word c)
      | _ \<Rightarrow> False)"

fun has_state_code :: "string \<Rightarrow> bool" where
  "has_state_code [] = False"
| "has_state_code (c # cs) = ((c = CHR '','' \<and> state_code_here cs) \<or> has_state_code cs)"

definition full_query_of :: "string \<Rightarrow> string \<Rightarrow> string" where
  "full_query_of q force_state =
     (if has_state_code q then q else q @ '', '' @ force_state @ '', USA'')"

definition in_bounds :: "real \<Rightarrow> real \<Rightarrow> bool" where
  "in_bounds la lo = (LAT_MIN \<le> la \<and> la \<le> LAT_MAX \<and> LNG_MIN \<le> lo \<and> lo \<le> LNG_MAX)"

definition geocode_location ::
  "(nat \<Rightarrow> string \<Rightarrow> geocode_response) \<Rightarrow> calc \<Rightarrow> string \<Rightarrow> string \<Rightarrow> geocoded option \<times> calc"
where
  "geocode_location api st q force_state =
     (let cache_key = q @ ''|'' @ force_state
      in case geocode_cache st cache_key of
           Some cached \<Rightarrow> (cached, st)
         | None \<Rightarrow>
             (let full_query = full_query_of q force_state;
                  data = api (length (geocode_calls st)) full_query;
                  st1 = st\<lparr>geocode_calls := geocode_calls st @ [(cache_key, full_query, data)]\<rparr>
              in if status data \<noteq> ''OK'' \<or> results data = []
                 then (None, st1\<lparr>geocode_cache := (geocode_cache st1)(cache_key \<mapsto> None)\<rparr>)
                 else
                   (let res = hd (results data);
                        la = res_lat res;
                        lo = res_lng res;
                        formatted = res_formatted_address res
                    in if \<not> in_bounds la lo
                       then (None, st1\<lparr>geocode_cache := (geocode_cache st1)(cache_key \<mapsto> None)\<rparr>)
                       else
                         (let g = \<lparr>query = q, formatted_address = formatted,
                                   lat = la, lng = lo\<rparr>
                          in (Some g,
                              st1\<lparr>geocode_cache := (geocode_cache st1)(cache_key \<mapsto> Some g)\<rparr>)))))"

definition distance_and_time ::
  "(nat \<Rightarrow> real \<times> real \<Rightarrow> real \<times> real \<Rightarrow> distance_response) \<Rightarrow> calc \<Rightarrow> geocoded \<Rightarrow> geocoded
     \<Rightarrow> (real \<times> real) \<times> calc"
where
  "distance_and_time api st origin destination =
     (let cache_key = distance_cache_key origin destination
      in case distance_cache st cache_key of
           Some cached \<Rightarrow> (cached, st)
         | None \<Rightarrow>
             (let data = api (length (distance_calls st)) (lat origin, lng origin)
                           (lat destination, lng destination);
                  st1 = st\<lparr>distance_calls := distance_calls st @ [(origin, destination, data)]\<rparr>
              in if dm_status data \<noteq> ''OK''
                 then ((0, 0), st1\<lparr>distance_cache := (distance_cache st1)(cache_key \<mapsto> (0, 0))\<rparr>)
                 else if element_status data \<noteq> ''OK''
                 then ((0, 0), st1\<lparr>distance_cache := (distance_cache st1)(cache_key \<mapsto> (0, 0))\<rparr>)
                 else
                   (let miles = distance_value data / 1609.34;
                        hours = duration_value data / 3600
                    in ((miles, hours),
                        st1\<lparr>distance_cache := (distance_cache st1)(cache_key \<mapsto> (miles, hours))\<rparr>))))"

subsection \<open>Pipeline steps\<close>

text \<open>A row of \<open>csv.DictReader\<close>: a column the row does not have reads as \<open>None\<close>.\<close>

record team_row =
  tr_Team :: "string option"
  tr_City :: "string option"
  tr_State :: "string option"
  tr_Zip :: "string option"


text \<open>\<open>row.get(col) or dflt\<close>.\<close>

definition get_or :: "string option \<Rightarrow> string \<Rightarrow> string" where
  "get_or x dflt = (case x of None \<Rightarrow> dflt | Some s \<Rightarrow> if s = [] then dflt else s)"

record team =
  t_name :: string
  t_city :: string
  t_state :: string
  t_zip :: string
  t_geocoded :: geocoded

record venue =
  v_location_key :: string
  v_city :: string
  v_venue :: string
  v_geocoded :: geocoded

record event =
  e_event_id :: string
  e_year :: string
  e_month :: int
  e_day :: int
  e_season :: season
  e_date :: string
  e_location_key :: string

text \<open>The body of the loop of \<open>process_teams\<close>, on the list built so far and the calculator.\<close>

definition team_step ::
  "(nat \<Rightarrow> string \<Rightarrow> geocode_response) \<Rightarrow> team list \<times> calc \<Rightarrow> team_row \<Rightarrow> team list \<times> calc"
where
  "team_step api acc row =
     (let teams = fst acc; st = snd acc;
          team = strip (get_or (tr_Team row) []);
          city = strip (get_or (tr_City row) []);
          state = strip (get_or (tr_State row) ''WA'');
          zipc = strip (get_or (tr_Zip row) [])
      in if team = [] then (teams, st)
         else
           (let city = clean_city_field team city;
                r1 = (if zipc \<noteq> [] then geocode_location api st zipc state else (None, st));
                r2 = (if fst r1 = None \<and> city \<noteq> []
                      then geocode_location api (snd r1) city state else r1)
            in case fst r2 of
                 Some g \<Rightarrow>
                   (teams @ [\<lparr>t_name = team, t_city = city, t_state = state, t_zip = zipc,
                              t_geocoded = g\<rparr>], snd r2)
               | None \<Rightarrow> (teams, snd r2)))"

definition process_teams ::
  "(nat \<Rightarrow> string \<Rightarrow> geocode_response) \<Rightarrow> calc \<Rightarrow> team_row list \<Rightarrow> team list \<times> calc"
where
  "process_teams api st rows = foldl (team_step api) ([], st) rows"








subsection \<open>The distance matrix\<close>

record rt =
  miles :: real
  hours :: real

record team_data =
  venues :: "(string \<times> rt) list"
  total_miles_events :: real
  total_hours_events :: real
  season_totals :: "season \<Rightarrow> rt"

type_synonym matrix = "(string \<times> team_data) list"

definition fresh_team_data :: team_data where
  "fresh_team_data =
     \<lparr>venues = [], total_miles_events = 0, total_hours_events = 0,
      season_totals = (\<lambda>s. \<lparr>miles = 0, hours = 0\<rparr>)\<rparr>"

text \<open>
  The builtin \<open>round\<close> works on binary doubles, which the reals of this embedding only
  approximate. The two loops of \<open>compute_team_venue_distances\<close> therefore take it as
  the parameter \<open>rnd\<close>, so that what is proved of them holds whatever \<open>round\<close>
  returns.
\<close>

text \<open>The inner loop, over the venues, for the team \<open>t\<close>.\<close>

fun venues_loop ::
  "(real \<Rightarrow> nat \<Rightarrow> real)
     \<Rightarrow> (nat \<Rightarrow> real \<times> real \<Rightarrow> real \<times> real \<Rightarrow> distance_response) \<Rightarrow> team \<Rightarrow> matrix \<times> calc
     \<Rightarrow> venue list \<Rightarrow> matrix \<times> calc"
where
  "venues_loop rnd api t acc [] = acc"
| "venues_loop rnd api t acc (v # vs) =
     (let distances = fst acc; st = snd acc;
          r = distance_and_time api st (t_geocoded t) (v_geocoded v);
          one_way_miles = fst (fst r);
          one_way_hours = snd (fst r);
          rt_miles = rnd (one_way_miles * 2) 1;
          rt_hours = rnd (one_way_hours * 2) 2
      in venues_loop rnd api t
           (AList.map_entry (t_name t)
              (\<lambda>td. td\<lparr>venues := AList.update (v_location_key v)
                                    \<lparr>miles = rt_miles, hours = rt_hours\<rparr> (venues td)\<rparr>)
              distances,
            snd r) vs)"

text \<open>The outer loop, over the teams.\<close>

fun teams_loop ::
  "(real \<Rightarrow> nat \<Rightarrow> real)
     \<Rightarrow> (nat \<Rightarrow> real \<times> real \<Rightarrow> real \<times> real \<Rightarrow> distance_response) \<Rightarrow> venue list \<Rightarrow> matrix \<times> calc
     \<Rightarrow> team list \<Rightarrow> matrix \<times> calc"
where
  "teams_loop rnd api vs acc [] = acc"
| "teams_loop rnd api vs acc (t # ts) =
     teams_loop rnd api vs
       (venues_loop rnd api t (AList.update (t_name t) fresh_team_data (fst acc), snd acc) vs) ts"

text \<open>\<open>compute_team_venue_distances\<close>, for a given \<open>round\<close>.\<close>

definition compute_team_venue_distances_with ::
  "(real \<Rightarrow> nat \<Rightarrow> real)
     \<Rightarrow> (nat \<Rightarrow> real \<times> real \<Rightarrow> real \<times> real \<Rightarrow> distance_response) \<Rightarrow> calc \<Rightarrow> team list \<Rightarrow> venue list
     \<Rightarrow> matrix \<times> calc"
where
  "compute_team_venue_distances_with rnd api st teams vs = teams_loop rnd api vs ([], st) teams"

text \<open>
  \<open>compute_team_venue_distances\<close> with \<open>round\<close> read as the rounding of the exact
  value.
\<close>

definition compute_team_venue_distances ::
  "(nat \<Rightarrow> real \<times> real \<Rightarrow> real \<times> real \<Rightarrow> distance_response) \<Rightarrow> calc \<Rightarrow> team list \<Rightarrow> venue list
     \<Rightarrow> matrix \<times> calc"
where
  "compute_team_venue_distances api st teams vs =
     compute_team_venue_distances_with py_round api st teams vs"

subsection \<open>Aggregation\<close>

text \<open>\<open>d[k] += x\<close> on a \<open>Counter\<close> or a \<open>defaultdict\<close> whose missing values read as \<open>z\<close>.\<close>

definition dict_add :: "'v \<Rightarrow> ('v \<Rightarrow> 'v) \<Rightarrow> 'k \<Rightarrow> ('k \<times> 'v) list \<Rightarrow> ('k \<times> 'v) list" where
  "dict_add z f k d = AList.update k (f (dict_get d k z)) d"

text \<open>\<open>Counter(e["location_key"] for e in events)\<close>.\<close>

definition count_venues :: "event list \<Rightarrow> (string \<times> nat) list" where
  "count_venues events = foldl (\<lambda>c e. dict_add 0 Suc (e_location_key e) c) [] events"

text \<open>The \<open>defaultdict(Counter)\<close> filled by the first loop.\<close>

definition count_venues_by_season :: "event list \<Rightarrow> (season \<times> (string \<times> nat) list) list" where
  "count_venues_by_season events =
     foldl (\<lambda>d e. dict_add [] (dict_add 0 Suc (e_location_key e)) (e_season e) d) [] events"

definition zero_rt :: rt where
  "zero_rt = \<lparr>miles = 0, hours = 0\<rparr>"

text \<open>
  The loop over the events for one team: the running \<open>total_miles\<close>, \<open>total_hours\<close> and
  season totals.
\<close>

definition event_step ::
  "(string \<times> rt) list \<Rightarrow> real \<times> real \<times> (season \<Rightarrow> rt) \<Rightarrow> event \<Rightarrow> real \<times> real \<times> (season \<Rightarrow> rt)"
where
  "event_step tvenues acc e =
     (let total_miles = fst acc; total_hours = fst (snd acc); st = snd (snd acc);
          vkey = e_location_key e;
          r = dict_get tvenues vkey zero_rt;
          s = e_season e
      in (total_miles + miles r, total_hours + hours r,
          st(s := \<lparr>miles = miles (st s) + miles r, hours = hours (st s) + hours r\<rparr>)))"

text \<open>The body of the loop over the teams: what it writes into the team's data.\<close>

definition team_totals :: "event list \<Rightarrow> team_data \<Rightarrow> team_data" where
  "team_totals events tdata =
     (let acc = foldl (event_step (venues tdata)) (0, 0, (\<lambda>s. zero_rt)) events;
          total_miles = fst acc; total_hours = fst (snd acc); st = snd (snd acc)
      in tdata\<lparr>total_miles_events := py_round total_miles 1,
               total_hours_events := py_round total_hours 2,
               season_totals :=
                 (\<lambda>s. \<lparr>miles = py_round (miles (st s)) 1, hours = py_round (hours (st s)) 2\<rparr>)\<rparr>)"

text \<open>
  The venue totals: for each counted venue, each team adds its round trip times the
  count. The accumulator holds \<open>venue_total_miles\<close> and \<open>venue_total_hours\<close>.
\<close>

definition venue_team_step ::
  "string \<Rightarrow> nat \<Rightarrow> (string \<times> real) list \<times> (string \<times> real) list \<Rightarrow> string \<times> team_data
     \<Rightarrow> (string \<times> real) list \<times> (string \<times> real) list"
where
  "venue_team_step vkey count acc p =
     (let r = dict_get (venues (snd p)) vkey zero_rt
      in (dict_add 0 (\<lambda>x. x + miles r * real count) vkey (fst acc),
          dict_add 0 (\<lambda>x. x + hours r * real count) vkey (snd acc)))"

definition venue_totals ::
  "matrix \<Rightarrow> (string \<times> nat) list \<Rightarrow> (string \<times> real) list \<times> (string \<times> real) list
     \<Rightarrow> (string \<times> real) list \<times> (string \<times> real) list"
where
  "venue_totals distances counts acc0 =
     foldl (\<lambda>acc kc. foldl (venue_team_step (fst kc) (snd kc)) acc distances) acc0 counts"

text \<open>The seasonal venue totals: the same loops under each season's own counter.\<close>

definition season_totals_step ::
  "matrix \<Rightarrow> (season \<times> (string \<times> real) list) list \<times> (season \<times> (string \<times> real) list) list
     \<Rightarrow> season \<times> (string \<times> nat) list
     \<Rightarrow> (season \<times> (string \<times> real) list) list \<times> (season \<times> (string \<times> real) list) list"
where
  "season_totals_step distances acc sc =
     foldl (\<lambda>acc kc.
              foldl (\<lambda>acc p.
                       (let r = dict_get (venues (snd p)) (fst kc) zero_rt
                        in (dict_add []
                              (dict_add 0 (\<lambda>x. x + miles r * real (snd kc)) (fst kc))
                              (fst sc) (fst acc),
                            dict_add []
                              (dict_add 0 (\<lambda>x. x + hours r * real (snd kc)) (fst kc))
                              (fst sc) (snd acc))))
                    acc distances)
           acc (snd sc)"

definition round_values :: "nat \<Rightarrow> ('k \<times> real) list \<Rightarrow> ('k \<times> real) list" where
  "round_values nd d = map (\<lambda>kv. (fst kv, py_round (snd kv) nd)) d"

record aggregates =
  venue_event_counts :: "(string \<times> nat) list"
  venue_event_counts_by_season :: "(season \<times> (string \<times> nat) list) list"
  venue_total_miles :: "(string \<times> real) list"
  venue_total_hours :: "(string \<times> real) list"
  venue_total_miles_by_season :: "(season \<times> (string \<times> real) list) list"
  venue_total_hours_by_season :: "(season \<times> (string \<times> real) list) list"

text \<open>
  \<open>derive_aggregates\<close> returns the aggregates; the second component is the \<open>distances\<close>
  dictionary as the function leaves it.
\<close>

definition derive_aggregates :: "matrix \<Rightarrow> event list \<Rightarrow> aggregates \<times> matrix" where
  "derive_aggregates distances events =
     (let counts = count_venues events;
          counts_by_season = count_venues_by_season events;
          distances1 = map (\<lambda>p. (fst p, team_totals events (snd p))) distances;
          vt = venue_totals distances1 counts ([], []);
          vts = foldl (season_totals_step distances1) ([], []) counts_by_season
      in (\<lparr>venue_event_counts = counts,
           venue_event_counts_by_season = counts_by_season,
           venue_total_miles = round_values 1 (fst vt),
           venue_total_hours = round_values 2 (snd vt),
           venue_total_miles_by_season = map (\<lambda>sd. (fst sd, round_values 1 (snd sd))) (fst vts),
           venue_total_hours_by_season = map (\<lambda>sd. (fst sd, round_values 2 (snd sd))) (snd vts)\<rparr>,
          distances1))"

subsection \<open>Specification predicates and example inputs\<close>

text \<open>
  An integer token, by its grammar: blanks, an optional sign, one or more groups of decimal
  digits joined by single underscores (4300 digits at most), blanks.
\<close>

fun join_underscore :: "string list \<Rightarrow> string" where
  "join_underscore [] = []"
| "join_underscore [g] = g"
| "join_underscore (g # h # gs) = g @ CHR ''_'' # join_underscore (h # gs)"

definition digit_group :: "string \<Rightarrow> bool" where
  "digit_group g = (g \<noteq> [] \<and> (\<forall>c\<in>set g. c \<in> set ''0123456789''))"







text \<open>A geocoding service that answers every request with a point in Maine.\<close>

definition far_away :: "nat \<Rightarrow> string \<Rightarrow> geocode_response" where
  "far_away n q =
     \<lparr>status = ''OK'',
      results = [\<lparr>res_formatted_address = ''Portland, ME, USA'',
                  res_lat = 43.66, res_lng = - 70.25\<rparr>]\<rparr>"

text \<open>A geocoding service that answers every request with a point in Spokane.\<close>

definition in_spokane :: "nat \<Rightarrow> string \<Rightarrow> geocode_response" where
  "in_spokane n q =
     \<lparr>status = ''OK'',
      results = [\<lparr>res_formatted_address = ''Spokane, WA, USA'',
                  res_lat = 47.66, res_lng = - 117.43\<rparr>]\<rparr>"

definition team_row_of :: "string \<Rightarrow> string \<Rightarrow> string \<Rightarrow> string \<Rightarrow> team_row" where
  "team_row_of t c s z = \<lparr>tr_Team = Some t, tr_City = Some c, tr_State = Some s, tr_Zip = Some z\<rparr>"

text \<open>The trimmed team name of an input row.\<close>

definition row_name :: "team_row \<Rightarrow> string" where
  "row_name row = strip (get_or (tr_Team row) [])"

subsection \<open>Relations between calculator states\<close>









definition riverside_geo :: geocoded where
  "riverside_geo =
     \<lparr>query = ''Riverside State Park, Spokane'', formatted_address = ''Spokane, WA, USA'',
      lat = 47.66, lng = - 117.43\<rparr>"

definition riverside_venue :: venue where
  "riverside_venue =
     \<lparr>v_location_key = ''Spokane, Riverside State Park'', v_city = ''Spokane'',
      v_venue = ''Riverside State Park'', v_geocoded = riverside_geo\<rparr>"

definition riverside_events :: "event list" where
  "riverside_events =
     [\<lparr>e_event_id = ''2024-04-13_Spokane_Riverside_State_Park'', e_year = ''2024'',
       e_month = 4, e_day = 13, e_season = Spring, e_date = ''4/13'',
       e_location_key = ''Spokane, Riverside State Park''\<rparr>,
      \<lparr>e_event_id = ''2024-09-20_Spokane_Riverside_State_Park'', e_year = ''2024'',
       e_month = 9, e_day = 20, e_season = Fall, e_date = ''9/20'',
       e_location_key = ''Spokane, Riverside State Park''\<rparr>]"




text \<open>The external distance requests made between two states of the calculator.\<close>

definition new_distance_calls :: "calc \<Rightarrow> calc \<Rightarrow> (geocoded \<times> geocoded \<times> distance_response) list" where
  "new_distance_calls st st' = drop (length (distance_calls st)) (distance_calls st')"

text \<open>What \<open>distance_and_time\<close> returns and caches for an answer of the service.\<close>

definition one_way_of :: "distance_response \<Rightarrow> real \<times> real" where
  "one_way_of data =
     (if dm_status data \<noteq> ''OK'' \<or> element_status data \<noteq> ''OK'' then (0, 0)
      else (distance_value data / 1609.34, duration_value data / 3600))"

text \<open>
  What any sequence of \<open>distance_and_time\<close> calls does to the calculator: cached values
  stay, the value of every request made is in the cache under the key of its two points,
  and the geocoding side is untouched.
\<close>

definition dist_ext :: "calc \<Rightarrow> calc \<Rightarrow> bool" where
  "dist_ext st st' =
     ((\<forall>k x. distance_cache st k = Some x \<longrightarrow> distance_cache st' k = Some x)
      \<and> (\<exists>new. distance_calls st' = distance_calls st @ new
             \<and> (\<forall>c\<in>set new. distance_cache st' (distance_cache_key (fst c) (fst (snd c)))
                                = Some (one_way_of (snd (snd c)))))
      \<and> geocode_cache st' = geocode_cache st
      \<and> geocode_calls st' = geocode_calls st)"

text \<open>The entry of the matrix for a team name and a location key, and the number of entries.\<close>

definition matrix_entry :: "matrix \<Rightarrow> string \<Rightarrow> string \<Rightarrow> rt option" where
  "matrix_entry m n k = (case map_of m n of None \<Rightarrow> None | Some td \<Rightarrow> map_of (venues td) k)"

definition matrix_size :: "matrix \<Rightarrow> nat" where
  "matrix_size m = sum_list (map (\<lambda>p. length (venues (snd p))) m)"

text \<open>A sequence of assignments \<open>d[k] = v\<close>.\<close>

definition update_all :: "('k \<times> 'v) list \<Rightarrow> ('k \<times> 'v) list \<Rightarrow> ('k \<times> 'v) list" where
  "update_all d kvs = foldl (\<lambda>d kv. AList.update (fst kv) (snd kv) d) d kvs"

text \<open>The round trip stored for a one-way result.\<close>

definition round_trip :: "(real \<Rightarrow> nat \<Rightarrow> real) \<Rightarrow> real \<times> real \<Rightarrow> rt" where
  "round_trip rnd ow = \<lparr>miles = rnd (fst ow * 2) 1, hours = rnd (snd ow * 2) 2\<rparr>"

text \<open>The row of the matrix for a team, read off the distance cache.\<close>

definition cached_row ::
  "(real \<Rightarrow> nat \<Rightarrow> real) \<Rightarrow> calc \<Rightarrow> team \<Rightarrow> venue list \<Rightarrow> (string \<times> rt) list"
where
  "cached_row rnd st t vs =
     map (\<lambda>v. (v_location_key v,
                round_trip rnd (the (distance_cache st
                  (distance_cache_key (t_geocoded t) (v_geocoded v)))))) vs"

text \<open>
  Two team rows with the same name and different zip codes, a geocoding service that places
  the two zip codes at different points, and the two teams that \<open>process_teams\<close> builds.
\<close>

definition dup_rows :: "team_row list" where
  "dup_rows =
     [team_row_of ''Riverside'' ''Spokane'' ''WA'' ''99201'',
      team_row_of ''Riverside'' ''Spokane Valley'' ''WA'' ''99206'']"

definition zip_geocoder :: "nat \<Rightarrow> string \<Rightarrow> geocode_response" where
  "zip_geocoder n q =
     (if q = ''99201, WA, USA''
      then \<lparr>status = ''OK'',
            results = [\<lparr>res_formatted_address = ''Spokane, WA 99201, USA'',
                        res_lat = 47.66, res_lng = - 117.43\<rparr>]\<rparr>
      else \<lparr>status = ''OK'',
            results = [\<lparr>res_formatted_address = ''Spokane Valley, WA 99206, USA'',
                        res_lat = 47.65, res_lng = - 117.24\<rparr>]\<rparr>)"

definition team_a :: team where
  "team_a =
     \<lparr>t_name = ''Riverside'', t_city = ''Spokane'', t_state = ''WA'', t_zip = ''99201'',
      t_geocoded = \<lparr>query = ''99201'', formatted_address = ''Spokane, WA 99201, USA'',
                     lat = 47.66, lng = - 117.43\<rparr>\<rparr>"

definition team_b :: team where
  "team_b =
     \<lparr>t_name = ''Riverside'', t_city = ''Spokane Valley'', t_state = ''WA'', t_zip = ''99206'',
      t_geocoded = \<lparr>query = ''99206'', formatted_address = ''Spokane Valley, WA 99206, USA'',
                     lat = 47.65, lng = - 117.24\<rparr>\<rparr>"

definition team_c :: team where
  "team_c = team_b\<lparr>t_name := ''Valley''\<rparr>"

text \<open>
  A distance service: 16093.4 m in 1800 s from the point of zip code 99201, 32186.8 m in
  3600 s from anywhere else; and one that finds no route from anywhere else.
\<close>

definition route_ok :: "real \<Rightarrow> real \<Rightarrow> distance_response" where
  "route_ok m s = \<lparr>dm_status = ''OK'', element_status = ''OK'',
                    distance_value = m, duration_value = s\<rparr>"

definition no_route :: distance_response where
  "no_route = \<lparr>dm_status = ''OK'', element_status = ''ZERO_RESULTS'',
                distance_value = 0, duration_value = 0\<rparr>"

definition by_origin :: "nat \<Rightarrow> real \<times> real \<Rightarrow> real \<times> real \<Rightarrow> distance_response" where
  "by_origin n origin destination =
     (if origin = (47.66, - 117.43) then route_ok 16093.4 1800 else route_ok 32186.8 3600)"

definition some_routes :: "nat \<Rightarrow> real \<times> real \<Rightarrow> real \<times> real \<Rightarrow> distance_response" where
  "some_routes n origin destination =
     (if origin = (47.66, - 117.43) then route_ok 16093.4 1800 else no_route)"

definition one_venue_row :: "real \<Rightarrow> real \<Rightarrow> team_data" where
  "one_venue_row mi h =
     fresh_team_data\<lparr>venues := [(''Spokane, Riverside State Park'', \<lparr>miles = mi, hours = h\<rparr>)]\<rparr>"

subsection \<open>Quantities of the aggregation\<close>

text \<open>
  The round trip of a team to the venue of an event, read with the default of
  \<open>tdata["venues"].get(vkey, {"miles": 0.0, "hours": 0.0})\<close>.
\<close>

definition pair_miles :: "team_data \<Rightarrow> string \<Rightarrow> real" where
  "pair_miles td k = miles (dict_get (venues td) k zero_rt)"

definition pair_hours :: "team_data \<Rightarrow> string \<Rightarrow> real" where
  "pair_hours td k = hours (dict_get (venues td) k zero_rt)"

text \<open>The events of a season.\<close>

definition in_season :: "season \<Rightarrow> event list \<Rightarrow> event list" where
  "in_season s es = filter (\<lambda>e. e_season e = s) es"

text \<open>The unrounded sum of a team's round trips over a list of events.\<close>

definition miles_over :: "team_data \<Rightarrow> event list \<Rightarrow> real" where
  "miles_over td es = sum_list (map (\<lambda>e. pair_miles td (e_location_key e)) es)"

definition hours_over :: "team_data \<Rightarrow> event list \<Rightarrow> real" where
  "hours_over td es = sum_list (map (\<lambda>e. pair_hours td (e_location_key e)) es)"

text \<open>The number of events held at a venue.\<close>

definition events_at :: "string \<Rightarrow> event list \<Rightarrow> nat" where
  "events_at k es = length (filter (\<lambda>e. e_location_key e = k) es)"

text \<open>
  The sum over all teams of the team's round trip to a venue times a count of events.
\<close>

definition venue_sum_miles :: "matrix \<Rightarrow> string \<Rightarrow> nat \<Rightarrow> real" where
  "venue_sum_miles m k c = sum_list (map (\<lambda>p. pair_miles (snd p) k * real c) m)"

definition venue_sum_hours :: "matrix \<Rightarrow> string \<Rightarrow> nat \<Rightarrow> real" where
  "venue_sum_hours m k c = sum_list (map (\<lambda>p. pair_hours (snd p) k * real c) m)"

text \<open>Reading a dictionary of dictionaries.\<close>

definition lookup2 :: "('a \<times> ('b \<times> 'v) list) list \<Rightarrow> 'a \<Rightarrow> 'b \<Rightarrow> 'v option" where
  "lookup2 d s k = (case map_of d s of None \<Rightarrow> None | Some inner \<Rightarrow> map_of inner k)"

text \<open>A number with at most \<open>nd\<close> decimals.\<close>

definition on_grid :: "nat \<Rightarrow> real \<Rightarrow> bool" where
  "on_grid nd x = (of_int \<lfloor>x * 10 ^ nd\<rfloor> = x * 10 ^ nd)"

text \<open>
  The effect of \<open>d[k] = f(d[k])\<close>, with \<open>z\<close> for a missing value, on the dictionary
  seen as a map.
\<close>

definition upd_with :: "'v \<Rightarrow> ('v \<Rightarrow> 'v) \<Rightarrow> ('k \<Rightarrow> 'v option) \<Rightarrow> 'k \<Rightarrow> 'k \<Rightarrow> 'v option" where
  "upd_with z f A k = A(k \<mapsto> f (case A k of None \<Rightarrow> z | Some x \<Rightarrow> x))"

text \<open>A dictionary of dictionaries with its keys paired, and its well-formedness.\<close>

definition flatten :: "('a \<times> ('b \<times> 'v) list) list \<Rightarrow> (('a \<times> 'b) \<times> 'v) list" where
  "flatten d = concat (map (\<lambda>sc. map (\<lambda>kc. ((fst sc, fst kc), snd kc)) (snd sc)) d)"

definition nested_ok :: "('a \<times> ('b \<times> 'v) list) list \<Rightarrow> bool" where
  "nested_ok d = (distinct (map fst d) \<and> (\<forall>sc\<in>set d. distinct (map fst (snd sc))))"

text \<open>
  The two inner loops of the venue totals on the map view: for each job (a key and a
  count), every team adds \<open>g key team * count\<close> under the key.
\<close>

definition run_jobs ::
  "('k \<Rightarrow> 'p \<Rightarrow> real) \<Rightarrow> 'p list \<Rightarrow> ('k \<Rightarrow> real option) \<Rightarrow> ('k \<times> nat) list \<Rightarrow> 'k \<Rightarrow> real option"
where
  "run_jobs g ps A jobs =
     foldl (\<lambda>A kc. foldl (\<lambda>A p. upd_with 0 (\<lambda>x. x + g (fst kc) p * real (snd kc)) A (fst kc)) A ps)
       A jobs"

section \<open>Properties\<close>

subsection \<open>Venue names\<close>

text \<open>
  C9. For the placeholder venue \<open>(local venue)\<close> the city override decides, first match
  winning: city Winthrop gives Liberty Bell High School, and city Ephrata gives
  \<open>Ephrata, WA\<close>, not the generic default Riverside State Park.
\<close>

theorem standardize_venue_name_local_overrides:
  "standardize_venue_name ''Winthrop'' ''(local venue)'' = ''Liberty Bell High School''
   \<and> standardize_venue_name ''Ephrata'' ''(local venue)'' = ''Ephrata, WA''
   \<and> standardize_venue_name ''Ephrata'' ''(local venue)'' \<noteq> ''Riverside State Park''"
  by (simp add: standardize_venue_name_def strip_def is_space_def
      CITY_LOCAL_VENUE_OVERRIDES_def lower_def lower_char_def dict_get_def
      LOCATION_STANDARDIZATION_def)

subsection \<open>Geocoding\<close>

lemma geocode_location_hit:
  "geocode_cache st (q @ ''|'' @ fs) = Some r \<Longrightarrow> geocode_location api st q fs = (r, st)"
  by (simp add: geocode_location_def)

lemma geocode_location_miss:
  assumes "geocode_cache st (q @ ''|'' @ fs) = None"
  shows "geocode_location api st q fs =
     (let data = api (length (geocode_calls st)) (full_query_of q fs);
          ok = (status data = ''OK'' \<and> results data \<noteq> []
                \<and> in_bounds (res_lat (hd (results data))) (res_lng (hd (results data))));
          r = (if ok then Some \<lparr>query = q, formatted_address = res_formatted_address (hd (results data)),
                                lat = res_lat (hd (results data)), lng = res_lng (hd (results data))\<rparr>
               else None)
      in (r, st\<lparr>geocode_calls := geocode_calls st @ [(q @ ''|'' @ fs, full_query_of q fs, data)],
               geocode_cache := (geocode_cache st)(q @ ''|'' @ fs \<mapsto> r)\<rparr>))"
  using assms by (simp add: geocode_location_def Let_def)

text \<open>
  C6. On a cache miss the answer of the geocoding service is accepted only when its status
  is OK, it has a result, and the first result lies in the box 45.0 to 49.5 by -125.0 to
  -116.0. An answer that fails any of these (a point outside the box as much as a failure
  status) returns not-found and stores not-found in the cache under the key of the call;
  the same call made again returns not-found and leaves the calculator as it is, whatever
  the service would answer, so no new external request is made.
\<close>

theorem geocode_location_validation:
  assumes miss: "geocode_cache st (q @ ''|'' @ fs) = None"
    and data: "data = api (length (geocode_calls st)) (full_query_of q fs)"
  shows "(fst (geocode_location api st q fs) \<noteq> None \<longrightarrow>
            status data = ''OK'' \<and> results data \<noteq> []
            \<and> 45.0 \<le> res_lat (hd (results data)) \<and> res_lat (hd (results data)) \<le> 49.5
            \<and> - 125.0 \<le> res_lng (hd (results data)) \<and> res_lng (hd (results data)) \<le> - 116.0)
       \<and> (status data \<noteq> ''OK'' \<or> results data = []
            \<or> \<not> (45.0 \<le> res_lat (hd (results data)) \<and> res_lat (hd (results data)) \<le> 49.5
                  \<and> - 125.0 \<le> res_lng (hd (results data)) \<and> res_lng (hd (results data)) \<le> - 116.0)
          \<longrightarrow> geocode_location api st q fs =
                (None, st\<lparr>geocode_calls := geocode_calls st @ [(q @ ''|'' @ fs, full_query_of q fs, data)],
                         geocode_cache := (geocode_cache st)(q @ ''|'' @ fs \<mapsto> None)\<rparr>)
              \<and> (\<forall>api'. geocode_location api' (snd (geocode_location api st q fs)) q fs =
                          (None, snd (geocode_location api st q fs))))"
  unfolding geocode_location_miss[OF miss] data
  by (auto simp: Let_def in_bounds_def LAT_MIN_def LAT_MAX_def LNG_MIN_def LNG_MAX_def
        geocode_location_hit)

theorem geocode_location_validation_witness:
  "geocode_cache init_calc (''Portland'' @ ''|'' @ ''WA'') = None
   \<and> geocode_location far_away init_calc ''Portland'' ''WA'' =
       (None, init_calc\<lparr>geocode_calls := [(''Portland|WA'', ''Portland, WA, USA'',
                                           far_away 0 ''Portland, WA, USA'')],
                        geocode_cache := (geocode_cache init_calc)(''Portland|WA'' \<mapsto> None)\<rparr>)
   \<and> geocode_location far_away (snd (geocode_location far_away init_calc ''Portland'' ''WA''))
        ''Portland'' ''WA''
       = (None, snd (geocode_location far_away init_calc ''Portland'' ''WA''))"
proof -
  have m: "geocode_cache init_calc (''Portland'' @ ''|'' @ ''WA'') = None"
    by (simp add: init_calc_def)
  have fq: "full_query_of ''Portland'' ''WA'' = ''Portland, WA, USA''"
    by (simp add: full_query_of_def state_code_here_def is_space_def)
  have d: "far_away 0 ''Portland, WA, USA'' =
           far_away (length (geocode_calls init_calc)) (full_query_of ''Portland'' ''WA'')"
    by (simp add: far_away_def)
  have oob: "\<not> (45.0 \<le> res_lat (hd (results (far_away 0 ''Portland, WA, USA'')))
                 \<and> res_lat (hd (results (far_away 0 ''Portland, WA, USA''))) \<le> 49.5
                 \<and> - 125.0 \<le> res_lng (hd (results (far_away 0 ''Portland, WA, USA'')))
                 \<and> res_lng (hd (results (far_away 0 ''Portland, WA, USA''))) \<le> - 116.0)"
    by (simp add: far_away_def)
  let ?S = "init_calc\<lparr>geocode_calls := geocode_calls init_calc
                              @ [(''Portland'' @ ''|'' @ ''WA'', full_query_of ''Portland'' ''WA'',
                                  far_away 0 ''Portland, WA, USA'')],
                           geocode_cache := (geocode_cache init_calc)(''Portland'' @ ''|'' @ ''WA'' \<mapsto> None)\<rparr>"
  from geocode_location_validation [of init_calc "''Portland''" "''WA''"
         "far_away 0 ''Portland, WA, USA''" far_away, OF m d] oob
  have A: "geocode_location far_away init_calc ''Portland'' ''WA'' = (None, ?S)"
    and B: "\<forall>api'. geocode_location api' (snd (geocode_location far_away init_calc ''Portland'' ''WA''))
                      ''Portland'' ''WA''
                    = (None, snd (geocode_location far_away init_calc ''Portland'' ''WA''))"
    by blast+
  from B have B': "geocode_location far_away (snd (geocode_location far_away init_calc ''Portland'' ''WA''))
                      ''Portland'' ''WA''
                    = (None, snd (geocode_location far_away init_calc ''Portland'' ''WA''))"
    by blast
  have S: "?S = init_calc\<lparr>geocode_calls := [(''Portland|WA'', ''Portland, WA, USA'',
                                           far_away 0 ''Portland, WA, USA'')],
                        geocode_cache := (geocode_cache init_calc)(''Portland|WA'' \<mapsto> None)\<rparr>"
    by (simp add: fq init_calc_def)
  from m A [unfolded S] B' show ?thesis
    by simp
qed


subsection \<open>Event dates\<close>











lemma digit_group_iff: "digit_group g = (g \<noteq> [] \<and> (\<forall>c\<in>set g. is_digit c))"
  by (simp add: digit_group_def is_digit_def)









lemma join_nonempty: "gs \<noteq> [] \<Longrightarrow> \<forall>g\<in>set gs. digit_group g \<Longrightarrow> join_underscore gs \<noteq> []"
  by (induction gs rule: join_underscore.induct) (auto simp: digit_group_iff)









subsection \<open>Team names\<close>

lemma distinct_count_le_1: "distinct xs = (\<forall>x. count_list xs x \<le> 1)"
proof (induction xs)
  case Nil
  show ?case by simp
next
  case (Cons a xs)
  have "(\<forall>x. count_list (a # xs) x \<le> 1) = (count_list xs a = 0 \<and> (\<forall>x. count_list xs x \<le> 1))"
  proof
    assume h: "\<forall>x. count_list (a # xs) x \<le> 1"
    from h [rule_format, of a] have "count_list xs a = 0" by simp
    moreover have "count_list xs x \<le> 1" for x
      using h [rule_format, of x] by (simp split: if_splits)
    ultimately show "count_list xs a = 0 \<and> (\<forall>x. count_list xs x \<le> 1)" by simp
  next
    assume "count_list xs a = 0 \<and> (\<forall>x. count_list xs x \<le> 1)"
    then show "\<forall>x. count_list (a # xs) x \<le> 1" by simp
  qed
  with Cons.IH show ?case by (simp add: count_list_0_iff)
qed

lemma team_step_names:
  "fst (team_step api acc row) = fst acc
   \<or> (\<exists>t. fst (team_step api acc row) = fst acc @ [t] \<and> t_name t = row_name row
           \<and> row_name row \<noteq> [])"
  by (simp add: team_step_def row_name_def Let_def split: option.splits)

lemma process_teams_loop_names:
  "count_list (map t_name (fst (foldl (team_step api) acc rows))) n
     \<le> count_list (map t_name (fst acc)) n + count_list (map row_name rows) n
   \<and> ([] \<notin> t_name ` set (fst acc) \<longrightarrow> [] \<notin> t_name ` set (fst (foldl (team_step api) acc rows)))"
proof (induction rows arbitrary: acc)
  case Nil
  show ?case by simp
next
  case (Cons row rows)
  from team_step_names [of api acc row] Cons.IH [of "team_step api acc row"]
  show ?case by auto
qed

text \<open>
  C8, as the code has it. \<open>process_teams\<close> removes no duplicate: every entry of its
  output carries the trimmed, non-empty name of an input row of its own, so a name occurs
  in the output at most as often as among the input rows, and the output names are unique
  whenever the non-empty trimmed names of the input rows are.
\<close>

theorem process_teams_names:
  "count_list (map t_name (fst (process_teams api st rows))) n
     \<le> count_list (map row_name rows) n
   \<and> [] \<notin> set (map t_name (fst (process_teams api st rows)))
   \<and> (distinct (filter (\<lambda>s. s \<noteq> []) (map row_name rows))
        \<longrightarrow> distinct (map t_name (fst (process_teams api st rows))))"
proof -
  let ?out = "map t_name (fst (process_teams api st rows))"
  have le: "count_list ?out m \<le> count_list (map row_name rows) m" for m
    using process_teams_loop_names [of api "([], st)" rows m]
    by (simp add: process_teams_def)
  have ne: "[] \<notin> set ?out"
    using process_teams_loop_names [of api "([], st)" rows n]
    by (simp add: process_teams_def)
  have "distinct ?out" if d: "distinct (filter (\<lambda>s. s \<noteq> []) (map row_name rows))"
  proof -
    have "count_list ?out m \<le> 1" for m
    proof (cases "m = []")
      case True
      with ne have "count_list ?out m = 0" by (simp add: count_list_0_iff)
      then show ?thesis by simp
    next
      case False
      then have "count_list (map row_name rows) m
                 = count_list (filter (\<lambda>s. s \<noteq> []) (map row_name rows)) m"
        by (induction rows) auto
      also have "\<dots> \<le> 1"
        using d by (simp add: distinct_count_le_1)
      finally show ?thesis using le [of m] by simp
    qed
    then show ?thesis
      by (simp add: distinct_count_le_1)
  qed
  with le ne show ?thesis by blast
qed

theorem process_teams_names_witness:
  "distinct (filter (\<lambda>s. s \<noteq> []) (map row_name
      [team_row_of ''Riverside'' ''Spokane'' ''WA'' ''99201'',
       team_row_of ''Cascade'' ''Leavenworth'' ''WA'' ''98826'']))
   \<and> distinct (map t_name (fst (process_teams in_spokane init_calc
      [team_row_of ''Riverside'' ''Spokane'' ''WA'' ''99201'',
       team_row_of ''Cascade'' ''Leavenworth'' ''WA'' ''98826''])))"
proof -
  have d: "distinct (filter (\<lambda>s. s \<noteq> []) (map row_name
      [team_row_of ''Riverside'' ''Spokane'' ''WA'' ''99201'',
       team_row_of ''Cascade'' ''Leavenworth'' ''WA'' ''98826'']))"
    by (simp add: row_name_def team_row_of_def get_or_def strip_def is_space_def)
  with process_teams_names [of in_spokane init_calc
      "[team_row_of ''Riverside'' ''Spokane'' ''WA'' ''99201'',
        team_row_of ''Cascade'' ''Leavenworth'' ''WA'' ''98826'']" "''Riverside''"]
  show ?thesis by blast
qed

text \<open>
  Two rows with the same team name and different zip codes, both geocoded: the output holds
  the name twice.
\<close>

theorem process_teams_duplicate_names:
  "map t_name (fst (process_teams in_spokane init_calc
      [team_row_of ''Riverside'' ''Spokane'' ''WA'' ''99201'',
       team_row_of ''Riverside'' ''Spokane Valley'' ''WA'' ''99206'']))
     = [''Riverside'', ''Riverside'']
   \<and> \<not> distinct (map t_name (fst (process_teams in_spokane init_calc
      [team_row_of ''Riverside'' ''Spokane'' ''WA'' ''99201'',
       team_row_of ''Riverside'' ''Spokane Valley'' ''WA'' ''99206''])))"
proof -
  have "map t_name (fst (process_teams in_spokane init_calc
      [team_row_of ''Riverside'' ''Spokane'' ''WA'' ''99201'',
       team_row_of ''Riverside'' ''Spokane Valley'' ''WA'' ''99206'']))
     = [''Riverside'', ''Riverside'']"
    by (simp add: process_teams_def team_step_def team_row_of_def get_or_def strip_def is_space_def
      clean_city_field_def lower_def lower_char_def geocode_location_def init_calc_def
      full_query_of_def state_code_here_def in_spokane_def in_bounds_def
      LAT_MIN_def LAT_MAX_def LNG_MIN_def LNG_MAX_def is_upper_def is_word_def Let_def)
  then show ?thesis by simp
qed

subsection \<open>Venue deduplication\<close>








lemma update_fresh: "map_of al k = None \<Longrightarrow> AList.update k v al = al @ [(k, v)]"
  by (induction al) (auto split: if_splits)





lemmas string_eval = strip_def is_space_def is_upper_def is_lower_def is_digit_def is_word_def
  lower_def lower_char_def get_or_def

lemmas geocode_eval = geocode_location_def full_query_of_def state_code_here_def in_bounds_def
  LAT_MIN_def LAT_MAX_def LNG_MIN_def LNG_MAX_def init_calc_def Let_def






subsection \<open>The distance matrix\<close>

lemma dist_ext_refl: "dist_ext st st"
  by (simp add: dist_ext_def)

lemma dist_ext_trans:
  assumes "dist_ext s1 s2" and "dist_ext s2 s3"
  shows "dist_ext s1 s3"
proof -
  from assms(1) obtain n1 where
    m1: "\<And>k x. distance_cache s1 k = Some x \<Longrightarrow> distance_cache s2 k = Some x"
    and c1: "distance_calls s2 = distance_calls s1 @ n1"
    and v1: "\<forall>c\<in>set n1. distance_cache s2 (distance_cache_key (fst c) (fst (snd c)))
                          = Some (one_way_of (snd (snd c)))"
    and o1: "geocode_cache s2 = geocode_cache s1" "geocode_calls s2 = geocode_calls s1"
    unfolding dist_ext_def by blast
  from assms(2) obtain n2 where
    m2: "\<And>k x. distance_cache s2 k = Some x \<Longrightarrow> distance_cache s3 k = Some x"
    and c2: "distance_calls s3 = distance_calls s2 @ n2"
    and v2: "\<forall>c\<in>set n2. distance_cache s3 (distance_cache_key (fst c) (fst (snd c)))
                          = Some (one_way_of (snd (snd c)))"
    and o2: "geocode_cache s3 = geocode_cache s2" "geocode_calls s3 = geocode_calls s2"
    unfolding dist_ext_def by blast
  have "distance_calls s3 = distance_calls s1 @ (n1 @ n2)"
    by (simp add: c1 c2)
  moreover have "\<forall>c\<in>set (n1 @ n2). distance_cache s3 (distance_cache_key (fst c) (fst (snd c)))
                          = Some (one_way_of (snd (snd c)))"
  proof
    fix c assume "c \<in> set (n1 @ n2)"
    then consider "c \<in> set n1" | "c \<in> set n2" by auto
    then show "distance_cache s3 (distance_cache_key (fst c) (fst (snd c)))
                 = Some (one_way_of (snd (snd c)))"
    proof cases
      case 1
      with v1 have "distance_cache s2 (distance_cache_key (fst c) (fst (snd c)))
                 = Some (one_way_of (snd (snd c)))" by blast
      then show ?thesis by (rule m2)
    next
      case 2
      with v2 show ?thesis by blast
    qed
  qed
  moreover have "\<forall>k x. distance_cache s1 k = Some x \<longrightarrow> distance_cache s3 k = Some x"
    using m1 m2 by blast
  ultimately show ?thesis
    unfolding dist_ext_def using o1 o2 by (intro conjI exI [of _ "n1 @ n2"]) simp_all
qed

lemma distance_and_time_hit:
  "distance_cache st (distance_cache_key origin destination) = Some r
   \<Longrightarrow> distance_and_time api st origin destination = (r, st)"
  by (simp add: distance_and_time_def)

lemma distance_and_time_miss:
  assumes "distance_cache st (distance_cache_key origin destination) = None"
  shows "distance_and_time api st origin destination =
     (let data = api (length (distance_calls st)) (lat origin, lng origin)
                   (lat destination, lng destination)
      in (one_way_of data,
          st\<lparr>distance_calls := distance_calls st @ [(origin, destination, data)],
             distance_cache := (distance_cache st)(distance_cache_key origin destination
                                                   \<mapsto> one_way_of data)\<rparr>))"
  using assms by (simp add: distance_and_time_def one_way_of_def Let_def)

lemma distance_and_time_ext: "dist_ext st (snd (distance_and_time api st origin destination))"
proof (cases "distance_cache st (distance_cache_key origin destination)")
  case (Some r)
  then show ?thesis by (simp add: distance_and_time_hit dist_ext_refl)
next
  case None
  then show ?thesis
    unfolding distance_and_time_miss [OF None] dist_ext_def Let_def by auto
qed

lemma distance_and_time_cached:
  "distance_cache (snd (distance_and_time api st origin destination))
     (distance_cache_key origin destination)
   = Some (fst (distance_and_time api st origin destination))"
proof (cases "distance_cache st (distance_cache_key origin destination)")
  case (Some r)
  then show ?thesis by (simp add: distance_and_time_hit)
next
  case None
  then show ?thesis
    unfolding distance_and_time_miss [OF None] Let_def by simp
qed

lemma dist_ext_cache:
  "dist_ext st st' \<Longrightarrow> distance_cache st k = Some x \<Longrightarrow> distance_cache st' k = Some x"
  unfolding dist_ext_def by blast

lemma map_entry_comp:
  "AList.map_entry k f (AList.map_entry k g al) = AList.map_entry k (\<lambda>x. f (g x)) al"
  by (induction al) auto

lemma map_entry_update:
  "AList.map_entry k f (AList.update k x al) = AList.update k (f x) al"
  by (induction al) auto

lemma update_all_Cons:
  "update_all d (kv # kvs) = update_all (AList.update (fst kv) (snd kv) d) kvs"
  by (simp add: update_all_def)

lemma update_all_Nil: "update_all d [] = d"
  by (simp add: update_all_def)

lemma venues_loop_closed:
  "dist_ext st (snd (venues_loop rnd api t (d, st) vs))
   \<and> (\<forall>v\<in>set vs. distance_cache (snd (venues_loop rnd api t (d, st) vs))
                     (distance_cache_key (t_geocoded t) (v_geocoded v)) \<noteq> None)
   \<and> fst (venues_loop rnd api t (d, st) vs) =
       AList.map_entry (t_name t)
         (\<lambda>td. td\<lparr>venues := update_all (venues td)
                                 (cached_row rnd (snd (venues_loop rnd api t (d, st) vs)) t vs)\<rparr>) d"
proof (induction vs arbitrary: d st)
  case Nil
  have "AList.map_entry k (\<lambda>td. td) al = al" for k and al :: matrix
    by (induction al) auto
  then show ?case by (simp add: dist_ext_refl cached_row_def update_all_Nil)
next
  case (Cons v vs)
  let ?r = "distance_and_time api st (t_geocoded t) (v_geocoded v)"
  let ?key = "distance_cache_key (t_geocoded t) (v_geocoded v)"
  let ?d1 = "AList.map_entry (t_name t)
              (\<lambda>td. td\<lparr>venues := AList.update (v_location_key v) (round_trip rnd (fst ?r)) (venues td)\<rparr>) d"
  let ?fin = "venues_loop rnd api t (?d1, snd ?r) vs"
  have unfold: "venues_loop rnd api t (d, st) (v # vs) = ?fin"
    by (simp add: Let_def round_trip_def)
  note ih = Cons.IH [where d = ?d1 and st = "snd ?r"]
  have e1: "dist_ext st (snd ?r)" by (rule distance_and_time_ext)
  have c1: "distance_cache (snd ?r) ?key = Some (fst ?r)" by (rule distance_and_time_cached)
  from ih have e2: "dist_ext (snd ?r) (snd ?fin)" by blast
  have c2: "distance_cache (snd ?fin) ?key = Some (fst ?r)"
    using dist_ext_cache [OF e2 c1] .
  have row: "cached_row rnd (snd ?fin) t (v # vs)
             = (v_location_key v, round_trip rnd (fst ?r)) # cached_row rnd (snd ?fin) t vs"
    by (simp add: cached_row_def c2)
  have "fst ?fin = AList.map_entry (t_name t)
         (\<lambda>td. td\<lparr>venues := update_all (venues td) (cached_row rnd (snd ?fin) t (v # vs))\<rparr>) d"
    using ih by (simp add: row map_entry_comp update_all_Cons)
  moreover have "dist_ext st (snd ?fin)"
    using e1 e2 by (rule dist_ext_trans)
  moreover have "\<forall>w\<in>set (v # vs). distance_cache (snd ?fin)
                     (distance_cache_key (t_geocoded t) (v_geocoded w)) \<noteq> None"
    using ih c2 by auto
  ultimately show ?case
    unfolding unfold by blast
qed


lemma cached_row_later:
  assumes ext: "dist_ext st st'"
    and set: "\<forall>v\<in>set vs. distance_cache st (distance_cache_key (t_geocoded t) (v_geocoded v)) \<noteq> None"
  shows "cached_row rnd st' t vs = cached_row rnd st t vs"
proof -
  have "distance_cache st' (distance_cache_key (t_geocoded t) (v_geocoded v))
        = distance_cache st (distance_cache_key (t_geocoded t) (v_geocoded v))"
    if "v \<in> set vs" for v
  proof -
    from set that obtain x where
      x: "distance_cache st (distance_cache_key (t_geocoded t) (v_geocoded v)) = Some x"
      by auto
    from dist_ext_cache [OF ext x] x show ?thesis by simp
  qed
  then show ?thesis
    by (simp add: cached_row_def)
qed

lemma teams_loop_closed:
  "dist_ext st (snd (teams_loop rnd api vs (d, st) ts))
   \<and> (\<forall>t\<in>set ts. \<forall>v\<in>set vs. distance_cache (snd (teams_loop rnd api vs (d, st) ts))
                     (distance_cache_key (t_geocoded t) (v_geocoded v)) \<noteq> None)
   \<and> fst (teams_loop rnd api vs (d, st) ts) =
       update_all d
         (map (\<lambda>t. (t_name t,
                     fresh_team_data\<lparr>venues :=
                       update_all [] (cached_row rnd (snd (teams_loop rnd api vs (d, st) ts)) t vs)\<rparr>)) ts)"
proof (induction ts arbitrary: d st)
  case Nil
  show ?case by (simp add: dist_ext_refl update_all_Nil)
next
  case (Cons t ts)
  let ?a = "venues_loop rnd api t (AList.update (t_name t) fresh_team_data d, st) vs"
  let ?fin = "teams_loop rnd api vs (fst ?a, snd ?a) ts"
  have unfold: "teams_loop rnd api vs (d, st) (t # ts) = ?fin"
    by simp
  note inner = venues_loop_closed [of st rnd api t "AList.update (t_name t) fresh_team_data d" vs]
  note ih = Cons.IH [where d = "fst ?a" and st = "snd ?a"]
  from inner have e1: "dist_ext st (snd ?a)" by blast
  from ih have e2: "dist_ext (snd ?a) (snd ?fin)" by blast
  from inner have set1: "\<forall>v\<in>set vs. distance_cache (snd ?a)
                     (distance_cache_key (t_geocoded t) (v_geocoded v)) \<noteq> None"
    by blast
  have row: "cached_row rnd (snd ?fin) t vs = cached_row rnd (snd ?a) t vs"
    using e2 set1 by (rule cached_row_later)
  from inner have i3: "fst ?a = AList.map_entry (t_name t)
         (\<lambda>td. td\<lparr>venues := update_all (venues td) (cached_row rnd (snd ?a) t vs)\<rparr>)
         (AList.update (t_name t) fresh_team_data d)"
    by blast
  have fresh: "venues fresh_team_data = []"
    by (simp add: fresh_team_data_def)
  have a0: "fst ?a = AList.update (t_name t)
             (fresh_team_data\<lparr>venues := update_all [] (cached_row rnd (snd ?a) t vs)\<rparr>) d"
    by (simp only: i3 map_entry_update fresh)
  have a: "fst ?a = AList.update (t_name t)
             (fresh_team_data\<lparr>venues := update_all [] (cached_row rnd (snd ?fin) t vs)\<rparr>) d"
    unfolding row by (rule a0)
  have set2: "\<forall>v\<in>set vs. distance_cache (snd ?fin)
                     (distance_cache_key (t_geocoded t) (v_geocoded v)) \<noteq> None"
  proof
    fix v assume "v \<in> set vs"
    with set1 obtain x where
      "distance_cache (snd ?a) (distance_cache_key (t_geocoded t) (v_geocoded v)) = Some x"
      by auto
    from dist_ext_cache [OF e2 this]
    show "distance_cache (snd ?fin) (distance_cache_key (t_geocoded t) (v_geocoded v)) \<noteq> None"
      by simp
  qed
  let ?F = "\<lambda>t. (t_name t,
                 fresh_team_data\<lparr>venues := update_all [] (cached_row rnd (snd ?fin) t vs)\<rparr>)"
  from ih have i3': "fst ?fin = update_all (fst ?a) (map ?F ts)"
    by blast
  have "update_all d (map ?F (t # ts))
        = update_all (AList.update (t_name t)
            (fresh_team_data\<lparr>venues := update_all [] (cached_row rnd (snd ?fin) t vs)\<rparr>) d)
            (map ?F ts)"
    by (simp only: list.map update_all_Cons fst_conv snd_conv)
  also have "\<dots> = update_all (fst ?a) (map ?F ts)"
    by (rule arg_cong [where f = "\<lambda>x. update_all x (map ?F ts)"]) (rule a [symmetric])
  finally have "fst ?fin = update_all d (map ?F (t # ts))"
    using i3' by (rule ssubst)
  moreover have "dist_ext st (snd ?fin)"
    using e1 e2 by (rule dist_ext_trans)
  moreover have "\<forall>t'\<in>set (t # ts). \<forall>v\<in>set vs. distance_cache (snd ?fin)
                     (distance_cache_key (t_geocoded t') (v_geocoded v)) \<noteq> None"
    using ih set2 by auto
  ultimately show ?case
    unfolding unfold by blast
qed

lemma map_of_update_all_at:
  "map_of (update_all d kvs) k = (map_of d ++ map_of (rev kvs)) k"
proof (induction kvs arbitrary: d)
  case Nil
  show ?case by (simp add: update_all_Nil)
next
  case (Cons kv kvs)
  show ?case
    by (cases kv) (simp add: update_all_Cons Cons.IH update_conv map_add_def split: option.splits)
qed

lemma map_of_update_all: "map_of (update_all d kvs) = map_of d ++ map_of (rev kvs)"
  by (rule ext) (rule map_of_update_all_at)

lemma map_of_rev_last:
  assumes "k \<notin> fst ` set post"
  shows "map_of (rev (pre @ (k, x) # post)) k = Some x"
proof -
  from assms have "map_of (rev post) k = None"
    by (simp add: map_of_eq_None_iff)
  then show ?thesis
    by (simp add: map_add_def)
qed

lemma update_all_fresh:
  "distinct (map fst kvs) \<Longrightarrow> fst ` set kvs \<inter> fst ` set d = {}
   \<Longrightarrow> update_all d kvs = d @ kvs"
proof (induction kvs arbitrary: d)
  case Nil
  show ?case by (simp add: update_all_Nil)
next
  case (Cons kv kvs)
  from Cons.prems have "map_of d (fst kv) = None"
    by (auto simp: map_of_eq_None_iff)
  then have u: "AList.update (fst kv) (snd kv) d = d @ [kv]"
    by (simp add: update_fresh)
  from Cons.prems have "update_all (d @ [kv]) kvs = (d @ [kv]) @ kvs"
    by (intro Cons.IH) auto
  then show ?case
    by (simp add: update_all_Cons u)
qed

lemma compute_closed:
  assumes "compute_team_venue_distances_with rnd api st teams vs = (m, st')"
  shows "dist_ext st st'"
    and "m = update_all []
         (map (\<lambda>t. (t_name t, fresh_team_data\<lparr>venues := update_all [] (cached_row rnd st' t vs)\<rparr>))
              teams)"
  using assms teams_loop_closed [of st rnd api vs "[]" teams]
  by (simp_all add: compute_team_venue_distances_with_def)

lemma new_distance_calls_cached:
  assumes "dist_ext st st'" and "(a, b, data) \<in> set (new_distance_calls st st')"
  shows "distance_cache st' (distance_cache_key a b) = Some (one_way_of data)"
  using assms unfolding dist_ext_def new_distance_calls_def by fastforce

lemma matrix_entry_last:
  assumes run: "compute_team_venue_distances_with rnd api st teams vs = (m, st')"
    and t: "teams = tpre @ t # tpost" "t_name t \<notin> t_name ` set tpost"
    and v: "vs = vpre @ v # vpost" "v_location_key v \<notin> v_location_key ` set vpost"
  shows "matrix_entry m (t_name t) (v_location_key v)
         = Some (round_trip rnd (the (distance_cache st'
                   (distance_cache_key (t_geocoded t) (v_geocoded v)))))"
proof -
  let ?row = "\<lambda>t. fresh_team_data\<lparr>venues := update_all [] (cached_row rnd st' t vs)\<rparr>"
  have m: "m = update_all [] (map (\<lambda>t. (t_name t, ?row t)) teams)"
    using compute_closed(2) [OF run] .
  have "t_name t \<notin> fst ` set (map (\<lambda>t. (t_name t, ?row t)) tpost)"
    using t(2) by (auto simp: image_iff)
  then have "map_of (rev (map (\<lambda>t. (t_name t, ?row t)) tpre
                          @ (t_name t, ?row t) # map (\<lambda>t. (t_name t, ?row t)) tpost)) (t_name t)
             = Some (?row t)"
    by (rule map_of_rev_last)
  then have r: "map_of m (t_name t) = Some (?row t)"
    by (simp add: m map_of_update_all t(1))
  let ?e = "\<lambda>v. (v_location_key v, round_trip rnd (the (distance_cache st'
                   (distance_cache_key (t_geocoded t) (v_geocoded v)))))"
  let ?x = "round_trip rnd (the (distance_cache st'
                   (distance_cache_key (t_geocoded t) (v_geocoded v))))"
  have "v_location_key v \<notin> fst ` set (map ?e vpost)"
    using v(2) by (auto simp: image_iff)
  then have "map_of (rev (map ?e vpre @ (v_location_key v, ?x) # map ?e vpost)) (v_location_key v)
             = Some ?x"
    by (rule map_of_rev_last)
  then have "map_of (rev (map ?e vpre @ ?e v # map ?e vpost)) (v_location_key v)
             = Some (snd (?e v))"
    by simp
  then have "map_of (venues (?row t)) (v_location_key v) = Some (snd (?e v))"
    by (simp add: map_of_update_all cached_row_def v(1))
  with r show ?thesis
    by (simp add: matrix_entry_def)
qed

text \<open>
  C1, as the code has it. The matrix is keyed by team name and location key, so an entry
  belongs to the last team of the list with that name and the last venue with that key
  (in a built venue list every key occurs once). For such a team and venue, when the run
  has made an external distance request for their two points and the service answered it
  with status OK, \<open>m\<close> meters and \<open>s\<close> seconds, the stored entry is
  \<open>round(2 * (m / 1609.34), 1)\<close> miles and \<open>round(2 * (s / 3600), 2)\<close> hours,
  whatever function \<open>round\<close> is.
\<close>

theorem matrix_entry_round_trip:
  assumes run: "compute_team_venue_distances_with rnd api st teams vs = (m, st')"
    and t: "teams = tpre @ t # tpost" "t_name t \<notin> t_name ` set tpost"
    and v: "vs = vpre @ v # vpost" "v_location_key v \<notin> v_location_key ` set vpost"
    and call: "(t_geocoded t, v_geocoded v, data) \<in> set (new_distance_calls st st')"
    and ok: "dm_status data = ''OK''" "element_status data = ''OK''"
  shows "matrix_entry m (t_name t) (v_location_key v)
         = Some \<lparr>miles = rnd (2 * (distance_value data / 1609.34)) 1,
                 hours = rnd (2 * (duration_value data / 3600)) 2\<rparr>"
proof -
  have "distance_cache st' (distance_cache_key (t_geocoded t) (v_geocoded v))
        = Some (one_way_of data)"
    using compute_closed(1) [OF run] call by (rule new_distance_calls_cached)
  with matrix_entry_last [OF run t v] ok show ?thesis
    by (simp add: round_trip_def one_way_of_def mult.commute)
qed

lemmas distance_eval = compute_team_venue_distances_def compute_team_venue_distances_with_def
  distance_and_time_def
  distance_cache_key_def fmt6_def py_round_def init_calc_def Let_def route_ok_def no_route_def
  fresh_team_data_def riverside_venue_def riverside_geo_def

lemma dup_teams_built: "fst (process_teams zip_geocoder init_calc dup_rows) = [team_a, team_b]"
  by (simp add: process_teams_def team_step_def dup_rows_def team_row_of_def team_a_def team_b_def
      zip_geocoder_def clean_city_field_def string_eval geocode_eval)

lemma dup_run_matrix:
  "fst (compute_team_venue_distances by_origin init_calc [team_a, team_b] [riverside_venue])
     = [(''Riverside'', one_venue_row 40 2)]"
  by (simp add: distance_eval by_origin_def team_a_def team_b_def one_venue_row_def)

lemma dup_run_calls:
  "distance_calls (snd (compute_team_venue_distances by_origin init_calc [team_a, team_b]
                          [riverside_venue]))
     = [(t_geocoded team_a, riverside_geo, route_ok 16093.4 1800),
        (t_geocoded team_b, riverside_geo, route_ok 32186.8 3600)]"
  by (simp add: distance_eval by_origin_def team_a_def team_b_def)


lemma mix_run_calls:
  "distance_calls (snd (compute_team_venue_distances some_routes init_calc [team_a, team_c]
                          [riverside_venue]))
     = [(t_geocoded team_a, v_geocoded riverside_venue, route_ok 16093.4 1800),
        (t_geocoded team_c, v_geocoded riverside_venue, no_route)]"
  by (simp add: distance_eval some_routes_def team_a_def team_b_def team_c_def)

text \<open>
  Two built teams with the same name: the request for the first team is answered with
  16093.4 m and 1800 s, which would give 20.0 miles and 1.0 hours, and the entry under the
  shared name holds the 40.0 miles and 2.0 hours of the second team.
\<close>

theorem duplicate_name_overwrites_entry:
  "fst (process_teams zip_geocoder init_calc dup_rows) = [team_a, team_b]
   \<and> (t_geocoded team_a, v_geocoded riverside_venue, route_ok 16093.4 1800)
       \<in> set (new_distance_calls init_calc
                (snd (compute_team_venue_distances by_origin init_calc [team_a, team_b]
                        [riverside_venue])))
   \<and> matrix_entry
         (fst (compute_team_venue_distances by_origin init_calc [team_a, team_b] [riverside_venue]))
         (t_name team_a) (v_location_key riverside_venue)
       = Some \<lparr>miles = 40, hours = 2\<rparr>
   \<and> \<lparr>miles = py_round (2 * (16093.4 / 1609.34)) 1, hours = py_round (2 * (1800 / 3600)) 2\<rparr>
       = \<lparr>miles = 20, hours = 1\<rparr>"
proof -
  let ?run = "compute_team_venue_distances by_origin init_calc [team_a, team_b] [riverside_venue]"
  have n: "new_distance_calls init_calc (snd ?run) = distance_calls (snd ?run)"
    by (simp add: new_distance_calls_def init_calc_def)
  have g: "v_geocoded riverside_venue = riverside_geo"
    by (simp add: riverside_venue_def)
  have c: "(t_geocoded team_a, v_geocoded riverside_venue, route_ok 16093.4 1800)
             \<in> set (new_distance_calls init_calc (snd ?run))"
    unfolding n dup_run_calls g by simp
  have e: "matrix_entry (fst ?run) (t_name team_a) (v_location_key riverside_venue)
             = Some \<lparr>miles = 40, hours = 2\<rparr>"
    unfolding dup_run_matrix
    by (simp add: matrix_entry_def one_venue_row_def team_a_def riverside_venue_def)
  have r: "\<lparr>miles = py_round (2 * (16093.4 / 1609.34)) 1, hours = py_round (2 * (1800 / 3600)) 2\<rparr>
             = \<lparr>miles = 20, hours = 1\<rparr>"
    by (simp add: py_round_def)
  from dup_teams_built c e r show ?thesis
    by (intro conjI)
qed

theorem matrix_entry_round_trip_witness:
  "[team_a, team_c] = [] @ team_a # [team_c] \<and> t_name team_a \<notin> t_name ` set [team_c]
   \<and> [riverside_venue] = [] @ riverside_venue # []
   \<and> v_location_key riverside_venue \<notin> v_location_key ` set []
   \<and> (t_geocoded team_a, v_geocoded riverside_venue, route_ok 16093.4 1800)
       \<in> set (new_distance_calls init_calc
                (snd (compute_team_venue_distances_with py_round some_routes init_calc [team_a, team_c]
                        [riverside_venue])))
   \<and> dm_status (route_ok 16093.4 1800) = ''OK'' \<and> element_status (route_ok 16093.4 1800) = ''OK''
   \<and> matrix_entry
         (fst (compute_team_venue_distances_with py_round some_routes init_calc [team_a, team_c]
                 [riverside_venue]))
         (t_name team_a) (v_location_key riverside_venue)
       = Some \<lparr>miles = 20, hours = 1\<rparr>"
proof -
  let ?run = "compute_team_venue_distances_with py_round some_routes init_calc [team_a, team_c] [riverside_venue]"
  have run: "?run = (fst ?run, snd ?run)" by simp
  have t: "[team_a, team_c] = [] @ team_a # [team_c]" "t_name team_a \<notin> t_name ` set [team_c]"
    by (simp_all add: team_a_def team_c_def team_b_def)
  have v: "[riverside_venue] = [] @ riverside_venue # []"
    "v_location_key riverside_venue \<notin> v_location_key ` set []"
    by simp_all
  have call: "(t_geocoded team_a, v_geocoded riverside_venue, route_ok 16093.4 1800)
       \<in> set (new_distance_calls init_calc (snd ?run))"
    using mix_run_calls
    by (simp add: new_distance_calls_def compute_team_venue_distances_def init_calc_def)
  have ok: "dm_status (route_ok 16093.4 1800) = ''OK''"
    "element_status (route_ok 16093.4 1800) = ''OK''"
    by (simp_all add: route_ok_def)
  have r: "py_round (2 * (distance_value (route_ok 16093.4 1800) / 1609.34)) 1 = 20"
    "py_round (2 * (duration_value (route_ok 16093.4 1800) / 3600)) 2 = 1"
    by (simp_all add: py_round_def route_ok_def)
  from matrix_entry_round_trip [OF run t v call ok]
  have "matrix_entry (fst ?run) (t_name team_a) (v_location_key riverside_venue)
        = Some \<lparr>miles = 20, hours = 1\<rparr>"
    by (simp only: r)
  with t v call ok show ?thesis by blast
qed

lemma py_round_zero: "py_round 0 nd = 0"
  by (simp add: py_round_def)

lemma matrix_size_closed:
  assumes run: "compute_team_venue_distances_with rnd api st teams vs = (m, st')"
    and dt: "distinct (map t_name teams)" and dv: "distinct (map v_location_key vs)"
  shows "matrix_size m = length teams * length vs"
proof -
  let ?row = "\<lambda>t. fresh_team_data\<lparr>venues := update_all [] (cached_row rnd st' t vs)\<rparr>"
  have keys: "map fst (cached_row rnd st' t vs) = map v_location_key vs" for t
    by (simp add: cached_row_def comp_def)
  have row: "update_all [] (cached_row rnd st' t vs) = cached_row rnd st' t vs" for t
  proof -
    have "distinct (map fst (cached_row rnd st' t vs))"
      using dv by (simp only: keys)
    then show ?thesis
      using update_all_fresh [of "cached_row rnd st' t vs" "[]"] by simp
  qed
  have "distinct (map fst (map (\<lambda>t. (t_name t, ?row t)) teams))"
    using dt by (simp add: comp_def)
  then have "update_all [] (map (\<lambda>t. (t_name t, ?row t)) teams) = map (\<lambda>t. (t_name t, ?row t)) teams"
    using update_all_fresh [of "map (\<lambda>t. (t_name t, ?row t)) teams" "[]"] by simp
  then have m: "m = map (\<lambda>t. (t_name t, ?row t)) teams"
    using compute_closed(2) [OF run] by simp
  have "length (cached_row rnd st' t vs) = length vs" for t
    by (simp add: cached_row_def)
  then have "length (venues (?row t)) = length vs" for t
    by (simp add: row)
  then show ?thesis
    by (simp add: matrix_size_def m comp_def sum_list_triv)
qed

lemma matrix_entry_present:
  assumes run: "compute_team_venue_distances_with rnd api st teams vs = (m, st')"
    and t: "t \<in> set teams" and v: "v \<in> set vs"
  shows "matrix_entry m (t_name t) (v_location_key v) \<noteq> None"
proof -
  let ?row = "\<lambda>t. fresh_team_data\<lparr>venues := update_all [] (cached_row rnd st' t vs)\<rparr>"
  let ?kvs = "map (\<lambda>t. (t_name t, ?row t)) teams"
  have m: "m = update_all [] ?kvs"
    using compute_closed(2) [OF run] .
  have "t_name t \<in> fst ` set (rev ?kvs)"
    using t by (auto simp: image_iff)
  then have "map_of (rev ?kvs) (t_name t) \<noteq> None"
    by (simp only: map_of_eq_None_iff not_not)
  then obtain td where td: "map_of (rev ?kvs) (t_name t) = Some td"
    by blast
  from map_of_SomeD [OF td] have "(t_name t, td) \<in> set ?kvs"
    by simp
  then obtain t' where td': "td = ?row t'"
    by (auto simp: image_iff)
  have "v_location_key v \<in> fst ` set (rev (cached_row rnd st' t' vs))"
    using v by (auto simp: cached_row_def image_iff)
  then have "map_of (rev (cached_row rnd st' t' vs)) (v_location_key v) \<noteq> None"
    by (simp add: map_of_eq_None_iff)
  then have "map_of (venues td) (v_location_key v) \<noteq> None"
    by (simp add: td' map_of_update_all)
  moreover have "map_of m (t_name t) = Some td"
    by (simp add: m map_of_update_all td)
  ultimately show ?thesis
    by (simp add: matrix_entry_def)
qed

text \<open>
  C2, as the code has it. After \<open>compute_team_venue_distances\<close> the matrix has an
  entry for the name of every team and the location key of every venue. When the team
  names are pairwise distinct and the location keys are pairwise distinct it has
  \<open>|teams| * |venues|\<close> entries, and a pair whose external request failed (a status
  other than OK, of the answer or of its element) is present with 0.0 miles and 0.0 hours.
\<close>

theorem matrix_complete:
  assumes run: "compute_team_venue_distances api st teams vs = (m, st')"
  shows "(\<forall>t\<in>set teams. \<forall>v\<in>set vs. matrix_entry m (t_name t) (v_location_key v) \<noteq> None)
       \<and> (distinct (map t_name teams) \<and> distinct (map v_location_key vs) \<longrightarrow>
            matrix_size m = length teams * length vs
            \<and> (\<forall>t\<in>set teams. \<forall>v\<in>set vs. \<forall>data.
                  (t_geocoded t, v_geocoded v, data) \<in> set (new_distance_calls st st')
                  \<and> (dm_status data \<noteq> ''OK'' \<or> element_status data \<noteq> ''OK'')
                  \<longrightarrow> matrix_entry m (t_name t) (v_location_key v)
                        = Some \<lparr>miles = 0, hours = 0\<rparr>))"
proof -
  from run have run: "compute_team_venue_distances_with py_round api st teams vs = (m, st')"
    by (simp add: compute_team_venue_distances_def)
  have zero: "matrix_entry m (t_name t) (v_location_key v) = Some \<lparr>miles = 0, hours = 0\<rparr>"
    if dt: "distinct (map t_name teams)" and dv: "distinct (map v_location_key vs)"
      and t: "t \<in> set teams" and v: "v \<in> set vs"
      and call: "(t_geocoded t, v_geocoded v, data) \<in> set (new_distance_calls st st')"
      and bad: "dm_status data \<noteq> ''OK'' \<or> element_status data \<noteq> ''OK''"
    for t v data
  proof -
    from t obtain tpre tpost where ts: "teams = tpre @ t # tpost"
      by (auto simp: in_set_conv_decomp)
    from v obtain vpre vpost where vs: "vs = vpre @ v # vpost"
      by (auto simp: in_set_conv_decomp)
    have lt: "t_name t \<notin> t_name ` set tpost"
      using dt unfolding ts by auto
    have lv: "v_location_key v \<notin> v_location_key ` set vpost"
      using dv unfolding vs by auto
    have "distance_cache st' (distance_cache_key (t_geocoded t) (v_geocoded v))
          = Some (one_way_of data)"
      using compute_closed(1) [OF run] call by (rule new_distance_calls_cached)
    moreover have "one_way_of data = (0, 0)"
      using bad by (auto simp: one_way_of_def)
    ultimately show ?thesis
      using matrix_entry_last [OF run ts lt vs lv]
      by (simp add: round_trip_def py_round_zero)
  qed
  show ?thesis
    using matrix_entry_present [OF run] matrix_size_closed [OF run] zero by blast
qed

text \<open>Two teams with the same name and one venue: one entry, not two.\<close>

theorem duplicate_name_shrinks_matrix:
  "length [team_a, team_b] * length [riverside_venue] = 2
   \<and> matrix_size (fst (compute_team_venue_distances by_origin init_calc [team_a, team_b]
                          [riverside_venue])) = 1"
  by (simp add: dup_run_matrix matrix_size_def one_venue_row_def)

theorem matrix_complete_witness:
  "distinct (map t_name [team_a, team_c]) \<and> distinct (map v_location_key [riverside_venue])
   \<and> team_c \<in> set [team_a, team_c] \<and> riverside_venue \<in> set [riverside_venue]
   \<and> (t_geocoded team_c, v_geocoded riverside_venue, no_route)
       \<in> set (new_distance_calls init_calc
                (snd (compute_team_venue_distances some_routes init_calc [team_a, team_c]
                        [riverside_venue])))
   \<and> element_status no_route \<noteq> ''OK''
   \<and> matrix_size (fst (compute_team_venue_distances some_routes init_calc [team_a, team_c]
                          [riverside_venue])) = 2
   \<and> matrix_entry
         (fst (compute_team_venue_distances some_routes init_calc [team_a, team_c]
                 [riverside_venue]))
         (t_name team_c) (v_location_key riverside_venue)
       = Some \<lparr>miles = 0, hours = 0\<rparr>
   \<and> matrix_entry
         (fst (compute_team_venue_distances some_routes init_calc [team_a, team_c]
                 [riverside_venue]))
         (t_name team_a) (v_location_key riverside_venue) \<noteq> None"
proof -
  let ?run = "compute_team_venue_distances some_routes init_calc [team_a, team_c] [riverside_venue]"
  have run: "?run = (fst ?run, snd ?run)" by simp
  have d: "distinct (map t_name [team_a, team_c])" "distinct (map v_location_key [riverside_venue])"
    by (simp_all add: team_a_def team_c_def team_b_def)
  have mem: "team_c \<in> set [team_a, team_c]" "team_a \<in> set [team_a, team_c]"
    "riverside_venue \<in> set [riverside_venue]"
    by simp_all
  have call: "(t_geocoded team_c, v_geocoded riverside_venue, no_route)
       \<in> set (new_distance_calls init_calc (snd ?run))"
    by (simp add: new_distance_calls_def mix_run_calls) (simp add: init_calc_def)
  have bad: "element_status no_route \<noteq> ''OK''"
    by (simp add: no_route_def)
  note mc = matrix_complete [OF run]
  from mc d have "matrix_size (fst ?run) = 2" by simp
  moreover from mc d mem call bad
  have "matrix_entry (fst ?run) (t_name team_c) (v_location_key riverside_venue)
        = Some \<lparr>miles = 0, hours = 0\<rparr>"
    by blast
  moreover from mc mem
  have "matrix_entry (fst ?run) (t_name team_a) (v_location_key riverside_venue) \<noteq> None"
    by blast
  ultimately show ?thesis
    using d mem call bad by blast
qed


subsection \<open>Aggregation: the totals of a team\<close>

lemma py_round_error: "\<bar>py_round x nd - x\<bar> \<le> 1 / (2 * 10 ^ nd)"
proof -
  define y where "y = x * 10 ^ nd"
  define k where "k = (if y - of_int \<lfloor>y\<rfloor> < 1 / 2 then \<lfloor>y\<rfloor>
                       else if 1 / 2 < y - of_int \<lfloor>y\<rfloor> then \<lfloor>y\<rfloor> + 1
                       else if even \<lfloor>y\<rfloor> then \<lfloor>y\<rfloor> else \<lfloor>y\<rfloor> + 1)"
  have r: "py_round x nd = of_int k / 10 ^ nd"
    by (simp add: py_round_def y_def k_def Let_def)
  have "of_int \<lfloor>y\<rfloor> \<le> y" "y < of_int \<lfloor>y\<rfloor> + 1"
    by linarith+
  then have k: "\<bar>of_int k - y\<bar> \<le> 1 / 2"
    by (auto simp: k_def)
  have p: "(0::real) < 10 ^ nd" by simp
  have "py_round x nd - x = (of_int k - y) / 10 ^ nd"
    by (simp add: r y_def diff_divide_distrib)
  then have "\<bar>py_round x nd - x\<bar> = \<bar>of_int k - y\<bar> / 10 ^ nd"
    by (simp add: abs_divide)
  also have "\<dots> \<le> (1 / 2) / 10 ^ nd"
    using k by (rule divide_right_mono) simp
  finally show ?thesis by simp
qed

lemma events_loop_closed:
  "foldl (event_step tv) (a, b, st) es =
     (a + sum_list (map (\<lambda>e. miles (dict_get tv (e_location_key e) zero_rt)) es),
      b + sum_list (map (\<lambda>e. hours (dict_get tv (e_location_key e) zero_rt)) es),
      (\<lambda>s. \<lparr>miles = miles (st s)
                  + sum_list (map (\<lambda>e. miles (dict_get tv (e_location_key e) zero_rt))
                                  (in_season s es)),
              hours = hours (st s)
                  + sum_list (map (\<lambda>e. hours (dict_get tv (e_location_key e) zero_rt))
                                  (in_season s es))\<rparr>))"
proof (induction es arbitrary: a b st)
  case Nil
  show ?case by (simp add: in_season_def fun_eq_iff)
next
  case (Cons e es)
  let ?m = "miles (dict_get tv (e_location_key e) zero_rt)"
  let ?h = "hours (dict_get tv (e_location_key e) zero_rt)"
  let ?st = "st(e_season e := \<lparr>miles = miles (st (e_season e)) + ?m,
                                  hours = hours (st (e_season e)) + ?h\<rparr>)"
  have step: "event_step tv (a, b, st) e = (a + ?m, b + ?h, ?st)"
    by (simp add: event_step_def Let_def)
  have "foldl (event_step tv) (a, b, st) (e # es) = foldl (event_step tv) (a + ?m, b + ?h, ?st) es"
    by (simp only: foldl_Cons step)
  also note Cons.IH [of "a + ?m" "b + ?h" ?st]
  finally show ?case
    by (simp add: in_season_def fun_eq_iff add.assoc)
qed

lemma team_totals_closed:
  "team_totals es td =
     td\<lparr>total_miles_events := py_round (miles_over td es) 1,
        total_hours_events := py_round (hours_over td es) 2,
        season_totals := (\<lambda>s. \<lparr>miles = py_round (miles_over td (in_season s es)) 1,
                                  hours = py_round (hours_over td (in_season s es)) 2\<rparr>)\<rparr>"
  by (simp add: team_totals_def events_loop_closed Let_def zero_rt_def miles_over_def
      hours_over_def pair_miles_def pair_hours_def)

lemma season_split:
  "sum_list (map f (in_season Spring es)) + sum_list (map f (in_season Fall es))
     + sum_list (map f (in_season Other es)) = (sum_list (map f es) :: real)"
proof (induction es)
  case Nil
  show ?case by (simp add: in_season_def)
next
  case (Cons e es)
  then show ?case
    by (cases "e_season e") (simp_all add: in_season_def)
qed

lemma derive_aggregates_matrix:
  "snd (derive_aggregates m es) = map (\<lambda>p. (fst p, team_totals es (snd p))) m"
  by (simp add: derive_aggregates_def Let_def)

lemma team_totals_venues: "venues (team_totals es td) = venues td"
  by (simp add: team_totals_closed)

lemma team_totals_idem: "team_totals es (team_totals es td) = team_totals es td"
  by (simp add: team_totals_closed miles_over_def hours_over_def pair_miles_def pair_hours_def)

text \<open>
  C7, as the code has it. \<open>derive_aggregates\<close> writes each team's totals and season
  totals into the matrix it was given, and nothing else: the team names, their order and
  every per-venue round trip are as before. The aggregates do not depend on the totals
  found in the matrix: running it again on the matrix it has written gives the same
  result.
\<close>

theorem derive_aggregates_frame:
  "map fst (snd (derive_aggregates m es)) = map fst m
   \<and> map (\<lambda>p. venues (snd p)) (snd (derive_aggregates m es)) = map (\<lambda>p. venues (snd p)) m
   \<and> matrix_entry (snd (derive_aggregates m es)) n k = matrix_entry m n k
   \<and> derive_aggregates (snd (derive_aggregates m es)) es = derive_aggregates m es"
proof -
  let ?m1 = "map (\<lambda>p. (fst p, team_totals es (snd p))) m"
  have m1: "snd (derive_aggregates m es) = ?m1"
    by (rule derive_aggregates_matrix)
  have keys: "map fst ?m1 = map fst m"
    by (simp add: comp_def)
  have vens: "map (\<lambda>p. venues (snd p)) ?m1 = map (\<lambda>p. venues (snd p)) m"
    by (simp add: comp_def team_totals_venues)
  have "map_of ?m1 n = map_option (team_totals es) (map_of m n)"
    by (induction m) auto
  then have entry: "matrix_entry ?m1 n k = matrix_entry m n k"
    by (cases "map_of m n") (simp_all add: matrix_entry_def team_totals_venues)
  have "map (\<lambda>p. (fst p, team_totals es (snd p))) ?m1 = ?m1"
    by (induction m) (simp_all add: team_totals_idem)
  then have "derive_aggregates ?m1 es = derive_aggregates m es"
    by (simp only: derive_aggregates_def Let_def)
  with keys vens entry show ?thesis
    unfolding m1 by blast
qed

text \<open>
  C4. For every team of the matrix after aggregation, the overall total and each season
  total are the roundings (1 decimal for miles, 2 for hours) of the sums of the team's
  round trips over all events and over the events of the season; the three unrounded
  season sums add up to the unrounded overall sum, each event lying in exactly one season.
  So the sum of the three stored season totals is within the four roundings of the
  stored overall total: 0.2 miles, 0.02 hours.
\<close>

theorem team_season_totals_identity:
  "\<forall>p\<in>set (snd (derive_aggregates m es)).
     total_miles_events (snd p) = py_round (miles_over (snd p) es) 1
     \<and> total_hours_events (snd p) = py_round (hours_over (snd p) es) 2
     \<and> (\<forall>s. miles (season_totals (snd p) s) = py_round (miles_over (snd p) (in_season s es)) 1
            \<and> hours (season_totals (snd p) s) = py_round (hours_over (snd p) (in_season s es)) 2)
     \<and> miles_over (snd p) (in_season Spring es) + miles_over (snd p) (in_season Fall es)
         + miles_over (snd p) (in_season Other es) = miles_over (snd p) es
     \<and> hours_over (snd p) (in_season Spring es) + hours_over (snd p) (in_season Fall es)
         + hours_over (snd p) (in_season Other es) = hours_over (snd p) es
     \<and> \<bar>miles (season_totals (snd p) Spring) + miles (season_totals (snd p) Fall)
          + miles (season_totals (snd p) Other) - total_miles_events (snd p)\<bar> \<le> 0.2
     \<and> \<bar>hours (season_totals (snd p) Spring) + hours (season_totals (snd p) Fall)
          + hours (season_totals (snd p) Other) - total_hours_events (snd p)\<bar> \<le> 0.02"
proof
  fix p assume "p \<in> set (snd (derive_aggregates m es))"
  then obtain q where q: "q \<in> set m" and p: "snd p = team_totals es (snd q)"
    by (auto simp: derive_aggregates_matrix)
  let ?td = "snd p"
  have mo: "miles_over ?td xs = miles_over (snd q) xs" for xs
    by (simp add: p miles_over_def pair_miles_def team_totals_venues)
  have ho: "hours_over ?td xs = hours_over (snd q) xs" for xs
    by (simp add: p hours_over_def pair_hours_def team_totals_venues)
  have tm: "total_miles_events ?td = py_round (miles_over ?td es) 1"
    and th: "total_hours_events ?td = py_round (hours_over ?td es) 2"
    and sm: "miles (season_totals ?td s) = py_round (miles_over ?td (in_season s es)) 1"
    and sh: "hours (season_totals ?td s) = py_round (hours_over ?td (in_season s es)) 2" for s
    unfolding mo ho by (simp_all add: p team_totals_closed)
  have sumM: "miles_over ?td (in_season Spring es) + miles_over ?td (in_season Fall es)
         + miles_over ?td (in_season Other es) = miles_over ?td es"
    unfolding miles_over_def by (rule season_split)
  have sumH: "hours_over ?td (in_season Spring es) + hours_over ?td (in_season Fall es)
         + hours_over ?td (in_season Other es) = hours_over ?td es"
    unfolding hours_over_def by (rule season_split)
  have bm: "\<bar>py_round x 1 - x\<bar> \<le> 1 / 20" for x
    using py_round_error [of x 1] by simp
  have bh: "\<bar>py_round x 2 - x\<bar> \<le> 1 / 200" for x
    using py_round_error [of x 2] by simp
  have "\<bar>miles (season_totals ?td Spring) + miles (season_totals ?td Fall)
          + miles (season_totals ?td Other) - total_miles_events ?td\<bar> \<le> 1 / 5"
    unfolding tm sm
    using bm [of "miles_over ?td (in_season Spring es)"] bm [of "miles_over ?td (in_season Fall es)"]
      bm [of "miles_over ?td (in_season Other es)"] bm [of "miles_over ?td es"] sumM
    by linarith
  then have dm: "\<bar>miles (season_totals ?td Spring) + miles (season_totals ?td Fall)
          + miles (season_totals ?td Other) - total_miles_events ?td\<bar> \<le> 0.2"
    by simp
  have "\<bar>hours (season_totals ?td Spring) + hours (season_totals ?td Fall)
          + hours (season_totals ?td Other) - total_hours_events ?td\<bar> \<le> 1 / 50"
    unfolding th sh
    using bh [of "hours_over ?td (in_season Spring es)"] bh [of "hours_over ?td (in_season Fall es)"]
      bh [of "hours_over ?td (in_season Other es)"] bh [of "hours_over ?td es"] sumH
    by linarith
  then have dh: "\<bar>hours (season_totals ?td Spring) + hours (season_totals ?td Fall)
          + hours (season_totals ?td Other) - total_hours_events ?td\<bar> \<le> 0.02"
    by simp
  from tm th sm sh sumM sumH dm dh
  show "total_miles_events (snd p) = py_round (miles_over (snd p) es) 1
     \<and> total_hours_events (snd p) = py_round (hours_over (snd p) es) 2
     \<and> (\<forall>s. miles (season_totals (snd p) s) = py_round (miles_over (snd p) (in_season s es)) 1
            \<and> hours (season_totals (snd p) s) = py_round (hours_over (snd p) (in_season s es)) 2)
     \<and> miles_over (snd p) (in_season Spring es) + miles_over (snd p) (in_season Fall es)
         + miles_over (snd p) (in_season Other es) = miles_over (snd p) es
     \<and> hours_over (snd p) (in_season Spring es) + hours_over (snd p) (in_season Fall es)
         + hours_over (snd p) (in_season Other es) = hours_over (snd p) es
     \<and> \<bar>miles (season_totals (snd p) Spring) + miles (season_totals (snd p) Fall)
          + miles (season_totals (snd p) Other) - total_miles_events (snd p)\<bar> \<le> 0.2
     \<and> \<bar>hours (season_totals (snd p) Spring) + hours (season_totals (snd p) Fall)
          + hours (season_totals (snd p) Other) - total_hours_events (snd p)\<bar> \<le> 0.02"
    by blast
qed


lemma riverside_sums:
  "miles_over (team_totals riverside_events (one_venue_row 40 2)) riverside_events = 80"
  "miles_over (team_totals riverside_events (one_venue_row 40 2)) (in_season Spring riverside_events) = 40"
  "miles_over (team_totals riverside_events (one_venue_row 40 2)) (in_season Fall riverside_events) = 40"
  "miles_over (team_totals riverside_events (one_venue_row 40 2)) (in_season Other riverside_events) = 0"
  by (simp_all add: miles_over_def pair_miles_def team_totals_venues one_venue_row_def
      riverside_events_def in_season_def dict_get_def zero_rt_def)

theorem team_season_totals_identity_witness:
  "(''Riverside'', team_totals riverside_events (one_venue_row 40 2))
     \<in> set (snd (derive_aggregates [(''Riverside'', one_venue_row 40 2)] riverside_events))
   \<and> total_miles_events (team_totals riverside_events (one_venue_row 40 2)) = 80
   \<and> miles (season_totals (team_totals riverside_events (one_venue_row 40 2)) Spring) = 40
   \<and> miles (season_totals (team_totals riverside_events (one_venue_row 40 2)) Fall) = 40
   \<and> miles (season_totals (team_totals riverside_events (one_venue_row 40 2)) Other) = 0"
proof -
  let ?td = "team_totals riverside_events (one_venue_row 40 2)"
  have mem: "(''Riverside'', ?td)
     \<in> set (snd (derive_aggregates [(''Riverside'', one_venue_row 40 2)] riverside_events))"
    by (simp add: derive_aggregates_matrix)
  have r: "py_round 80 (Suc 0) = 80" "py_round 40 (Suc 0) = 40" "py_round 0 (Suc 0) = 0"
    by (simp_all add: py_round_def)
  from team_season_totals_identity [rule_format, OF mem]
  have "total_miles_events ?td = py_round (miles_over ?td riverside_events) 1"
    and "\<forall>s. miles (season_totals ?td s) = py_round (miles_over ?td (in_season s riverside_events)) 1"
    by simp_all
  then have "total_miles_events ?td = 80" "miles (season_totals ?td Spring) = 40"
    "miles (season_totals ?td Fall) = 40" "miles (season_totals ?td Other) = 0"
    by (simp_all add: riverside_sums r)
  with mem show ?thesis by blast
qed

text \<open>
  A matrix of one team, 40 miles from a venue with two events: its
  \<open>total_miles_events\<close> is 0.0 before the call and 80.0 after it.
\<close>

theorem derive_aggregates_writes_totals:
  "total_miles_events (snd (hd [(''Riverside'', one_venue_row 40 2)])) = 0
   \<and> total_miles_events
        (snd (hd (snd (derive_aggregates [(''Riverside'', one_venue_row 40 2)] riverside_events))))
       = 80
   \<and> snd (derive_aggregates [(''Riverside'', one_venue_row 40 2)] riverside_events)
       \<noteq> [(''Riverside'', one_venue_row 40 2)]"
proof -
  let ?m = "[(''Riverside'', one_venue_row 40 2)]"
  have z: "total_miles_events (snd (hd ?m)) = 0"
    by (simp add: one_venue_row_def fresh_team_data_def)
  have "miles_over (one_venue_row 40 2) riverside_events = 80"
    using riverside_sums(1) by (simp add: miles_over_def pair_miles_def team_totals_venues)
  moreover have "py_round 80 (Suc 0) = 80"
    by (simp add: py_round_def)
  ultimately have t: "total_miles_events (snd (hd (snd (derive_aggregates ?m riverside_events)))) = 80"
    by (simp add: derive_aggregates_matrix team_totals_closed)
  from z t have "snd (derive_aggregates ?m riverside_events) \<noteq> ?m"
    by auto
  with z t show ?thesis by blast
qed


end
